theory Spec2Isabelle
  imports Main
begin

section \<open>Python values used by the two apps\<close>

text \<open>
  A Python \<open>str\<close> is a sequence of Unicode code points, so it is modelled as a list of
  natural numbers (\<open>len\<close> and slicing count code points, and the labels of the apps hold
  code points above 255). \<open>asc\<close> embeds an ASCII literal.
\<close>

type_synonym pystr = "nat list"

definition asc :: "string \<Rightarrow> pystr" where
  "asc s = map of_char s"

text \<open>Truthiness of a \<open>str\<close>: \<open>not s\<close> holds exactly for the empty string.\<close>

definition truthy :: "pystr \<Rightarrow> bool" where
  "truthy s = (s \<noteq> [])"

text \<open>
  Truthiness of the value of \<open>os.getenv(k)\<close>, which is \<open>None\<close> for an unset variable:
  \<open>not v\<close> holds for \<open>None\<close> and for the empty string.
\<close>

definition falsy :: "pystr option \<Rightarrow> bool" where
  "falsy v = (case v of None \<Rightarrow> True | Some s \<Rightarrow> s = [])"

text \<open>
  \<open>str.isspace\<close> on one code point: the code points CPython treats as whitespace, which
  are the ones \<open>str.strip()\<close> removes.
\<close>

definition isspace :: "nat \<Rightarrow> bool" where
  "isspace c =
     ((9 \<le> c \<and> c \<le> 13) \<or> (28 \<le> c \<and> c \<le> 32) \<or> c = 133 \<or> c = 160 \<or> c = 5760 \<or>
      (8192 \<le> c \<and> c \<le> 8202) \<or> c = 8232 \<or> c = 8233 \<or> c = 8239 \<or> c = 8287 \<or>
      c = 12288)"

definition strip :: "pystr \<Rightarrow> pystr" where
  "strip s = rev (dropWhile isspace (rev (dropWhile isspace s)))"

text \<open>
  \<open>s.replace(old, new)\<close>: every non-overlapping occurrence of \<open>old\<close>, scanning from the
  left; an empty \<open>old\<close> matches before every code point and at the end.
\<close>

function replace_from :: "pystr \<Rightarrow> pystr \<Rightarrow> pystr \<Rightarrow> pystr" where
  "replace_from old new s =
     (if s = [] \<or> old = [] then s
      else if take (length old) s = old
        then new @ replace_from old new (drop (length old) s)
        else hd s # replace_from old new (tl s))"
  by pat_completeness auto
termination
  by (relation "measure (\<lambda>(old, new, s). length s)") auto

declare replace_from.simps [simp del]

definition replace :: "pystr \<Rightarrow> pystr \<Rightarrow> pystr \<Rightarrow> pystr" where
  "replace old new s =
     (if old = [] then new @ concat (map (\<lambda>c. c # new) s) else replace_from old new s)"

text \<open>An exception instance, as the handlers read it: \<open>type(e).__name__\<close> and \<open>str(e)\<close>.\<close>

datatype exn = Exn (exn_type: pystr) (exn_str: pystr)

text \<open>What Python raises when a function body names a global that is not bound.\<close>

definition NameError :: "string \<Rightarrow> exn" where
  "NameError n =
     Exn (asc ''NameError'') (asc ''name '' @ [39] @ asc n @ [39] @ asc '' is not defined'')"

section \<open>The descriptors handed to the agent runtime\<close>

text \<open>
  The classes of \<open>crewai\<close> and \<open>crewai_tools\<close> as the apps use them: value objects built
  from keyword arguments. Keyword arguments an app leaves out are the empty list
  (\<open>tools\<close>, \<open>context\<close>) or \<open>None\<close> (\<open>base_url\<close>, \<open>api_key\<close> of the search tool).
\<close>

datatype llm = LLM (llm_model: pystr) (llm_api_key: pystr) (llm_base_url: "pystr option")

datatype tool = SerperDevTool (tool_api_key: "pystr option")

datatype agent =
  Agent (role: pystr) (goal: pystr) (backstory: pystr) (tools: "tool list")
    (verbose: bool) (allow_delegation: bool) (agent_llm: llm)

datatype task =
  Task (description: pystr) (expected_output: pystr) (task_agent: agent)
    (task_context: "task list")

datatype process = sequential | hierarchical

text \<open>\<open>Crew(verbose=...)\<close> receives the integer \<open>1\<close> in one app and \<open>False\<close> in the other.\<close>

datatype verbosity = VBool bool | VInt int

datatype crew =
  Crew (crew_agents: "agent list") (crew_tasks: "task list") (crew_process: process)
    (crew_verbose: verbosity)

text \<open>
  What \<open>crew.kickoff()\<close> returns, as far as the apps look at it: an object with a \<open>raw\<close>
  attribute (and its \<open>str()\<close>), a plain \<open>str\<close>, or any other object (its \<open>str()\<close>).
\<close>

datatype crew_result = HasRaw pystr pystr | IsStr pystr | Other pystr

definition py_str :: "crew_result \<Rightarrow> pystr" where
  "py_str r = (case r of HasRaw raw s \<Rightarrow> s | IsStr s \<Rightarrow> s | Other s \<Rightarrow> s)"

section \<open>The world: environment, cache, and the trace of effects\<close>

text \<open>
  Everything the apps do beyond computing values is an event of one trace, in program
  order: a Streamlit element written to the page, a call into the agent library, or an
  assignment to \<open>os.environ\<close>.
\<close>

datatype ui =
    st_error pystr
  | st_warning pystr
  | st_success pystr
  | st_write pystr
  | st_markdown pystr
  | st_subheader pystr
  | st_code pystr
  | st_status pystr
  | status_update pystr
  | st_expander pystr
  | st_download_button (dl_label: pystr) (dl_data: pystr) (dl_file_name: pystr)
      (dl_mime: pystr)

datatype call =
    CallLLM llm
  | CallSerperDevTool tool
  | CallAgent agent
  | CallTask task
  | CallCrew crew
  | CallKickoff crew

datatype event = UI ui | Call call | SetEnv pystr pystr

record world =
  environ :: "pystr \<rightharpoonup> pystr"
  cache :: "pystr \<times> pystr \<rightharpoonup> crew_result \<times> nat"
  trace :: "event list"

definition emit :: "event list \<Rightarrow> world \<Rightarrow> world" where
  "emit es w = w\<lparr>trace := trace w @ es\<rparr>"

definition os_getenv :: "world \<Rightarrow> string \<Rightarrow> pystr option" where
  "os_getenv w k = environ w (asc k)"

text \<open>\<open>os.getenv(k, default)\<close>.\<close>

definition os_getenv_default :: "world \<Rightarrow> string \<Rightarrow> pystr \<Rightarrow> pystr" where
  "os_getenv_default w k d = (case environ w (asc k) of None \<Rightarrow> d | Some v \<Rightarrow> v)"

text \<open>
  The behaviour of the external collaborators, a parameter of every run: whether the
  constructors \<open>LLM(...)\<close> and \<open>SerperDevTool(...)\<close> raise (the form app wraps both in
  \<open>try\<close>), what \<open>crew.kickoff()\<close> returns or raises, \<open>sys.version\<close>, and
  \<open>crewai.__version__\<close> (\<open>None\<close> when reading it fails). The exceptions are instances of
  \<open>Exception\<close>, the class the handlers catch. The last field is the message the UTF-8
  codec gives the \<open>UnicodeEncodeError\<close> it raises for a text; no code of the apps reads
  it.
\<close>

record ext =
  LLM_raises :: "llm \<Rightarrow> exn option"
  SerperDevTool_raises :: "tool \<Rightarrow> exn option"
  kickoff :: "crew \<Rightarrow> exn + crew_result"
  sys_version :: pystr
  crewai_version :: "pystr option"
  encode_error_str :: "pystr \<Rightarrow> pystr"

text \<open>
  \<open>os.environ[k] = v\<close>, for the two keys the form app assigns (ASCII literals), on a
  POSIX system with the UTF-8 filesystem encoding. The value is first encoded with the
  \<open>surrogateescape\<close> handler, which raises \<open>UnicodeEncodeError\<close> on a surrogate code point
  outside U+DC80..U+DCFF; then \<open>putenv\<close> raises \<open>ValueError\<close> on an embedded NUL. Only a
  value that passes both (\<open>environ_accepts\<close>) is written, and \<open>environ_written\<close> is the
  world after the write; a refused assignment leaves the world as it was.
\<close>

definition lone_surrogate :: "nat \<Rightarrow> bool" where
  "lone_surrogate c = (55296 \<le> c \<and> c \<le> 57343 \<and> \<not> (56448 \<le> c \<and> c \<le> 56575))"

definition environ_accepts :: "pystr \<Rightarrow> bool" where
  "environ_accepts v = (\<not> list_ex lone_surrogate v \<and> 0 \<notin> set v)"

definition environ_written :: "string \<Rightarrow> pystr \<Rightarrow> world \<Rightarrow> world" where
  "environ_written k v w =
     w\<lparr>environ := (environ w)(asc k \<mapsto> v), trace := trace w @ [SetEnv (asc k) v]\<rparr>"

definition os_environ_set :: "ext \<Rightarrow> string \<Rightarrow> pystr \<Rightarrow> world \<Rightarrow> exn + world" where
  "os_environ_set x k v w =
     (if list_ex lone_surrogate v then
        Inl (Exn (asc ''UnicodeEncodeError'') (encode_error_str x v))
      else if 0 \<in> set v then
        Inl (Exn (asc ''ValueError'') (asc ''embedded null byte''))
      else Inr (environ_written k v w))"

text \<open>
  How a script-level block ends: it runs to its end (or returns), an exception leaves
  it, or \<open>st.stop()\<close> halts the script. \<open>st.stop()\<close> is not an \<open>Exception\<close>, so no
  \<open>except Exception\<close> handler of the apps catches it.
\<close>

datatype 'a flow = Ret 'a | Raise exn | Stop

text \<open>\<open>st.button(..., disabled=d)\<close>: true when the user clicked it and it is enabled.\<close>

definition st_button :: "bool \<Rightarrow> bool \<Rightarrow> bool" where
  "st_button disabled clicked = (clicked \<and> \<not> disabled)"

text \<open>
  \<open>st.text_input(..., value=default)\<close>: the text the user entered, or the default while
  the field is untouched.
\<close>

definition st_text_input :: "pystr \<Rightarrow> pystr option \<Rightarrow> pystr" where
  "st_text_input dflt entered = (case entered of None \<Rightarrow> dflt | Some v \<Rightarrow> v)"

text \<open>
  The name of the downloaded file, the same expression in both apps:
  \<open>f"{topic.replace(' ', '_')[:30]}_blog.md"\<close>.
\<close>

definition file_name :: "pystr \<Rightarrow> pystr" where
  "file_name topic = take 30 (replace (asc '' '') (asc ''_'') topic) @ asc ''_blog.md''"

section \<open>The environment-credential app, \<open>AI_Blog_Agent/app.py\<close>\<close>

text \<open>
  The globals of the module after its top-level statements have run: the names they
  bind (by \<open>import\<close>, assignment and \<open>def\<close>), and the values the functions read.
  A function body looks a global name up when it runs.
\<close>

record app_module =
  names :: "string list"
  CLARIFAI_PAT :: pystr
  SERPER_API_KEY :: pystr
  search_tool :: tool

text \<open>
  The names bound by the module, in the order of its statements. Line 3 is
  \<open>from crewai import Agent, Task, Crew, Process\<close>; no statement of the module binds
  \<open>LLM\<close>, and \<open>LLM\<close> is not a builtin.
\<close>

definition app_names :: "string list" where
  "app_names =
     [''st'', ''os'', ''Agent'', ''Task'', ''Crew'', ''Process'', ''SerperDevTool'',
      ''datetime'', ''CLARIFAI_PAT'', ''SERPER_API_KEY'', ''get_clarifai_llm'',
      ''search_tool'', ''create_agents'', ''create_tasks'', ''run_blog_generation'',
      ''main'']"

text \<open>
  The top-level statements (lines 8 to 29): read the two variables, halt with an error
  when one is missing or empty, then build the search tool. Past both checks the
  variables are set, so the defaults of the two reads below are never taken.
\<close>

definition load_app :: "ext \<Rightarrow> world \<Rightarrow> app_module flow \<times> world" where
  "load_app x w =
     (if falsy (os_getenv w ''CLARIFAI_PAT'') then
        (Stop, emit [UI (st_error (asc ''Please set CLARIFAI_PAT environment variable''))] w)
      else if falsy (os_getenv w ''SERPER_API_KEY'') then
        (Stop, emit [UI (st_error (asc ''Please set SERPER_API_KEY environment variable''))] w)
      else
        (let t = SerperDevTool None; w1 = emit [Call (CallSerperDevTool t)] w in
         case SerperDevTool_raises x t of
           Some e \<Rightarrow> (Raise e, w1)
         | None \<Rightarrow>
             (Ret \<lparr>names = app_names,
                   CLARIFAI_PAT = os_getenv_default w ''CLARIFAI_PAT'' [],
                   SERPER_API_KEY = os_getenv_default w ''SERPER_API_KEY'' [],
                   search_tool = t\<rparr>, w1)))"

text \<open>
  \<open>get_clarifai_llm\<close> (lines 21 to 26). The body calls the global \<open>LLM\<close>; where the
  module does not bind that name, evaluating it raises \<open>NameError\<close> before any argument
  is looked at.
\<close>

definition get_clarifai_llm :: "ext \<Rightarrow> app_module \<Rightarrow> pystr \<Rightarrow> world \<Rightarrow> (exn + llm) \<times> world" where
  "get_clarifai_llm x m model_name w =
     (if ''LLM'' \<notin> set (names m) then (Inl (NameError ''LLM''), w)
      else
        (let l = LLM model_name (CLARIFAI_PAT m)
                   (Some (asc ''https://api.clarifai.com/v2/ext/openai/v1''));
             w1 = emit [Call (CallLLM l)] w in
         case LLM_raises x l of Some e \<Rightarrow> (Inl e, w1) | None \<Rightarrow> (Inr l, w1)))"

definition researcher_backstory :: pystr where
  "researcher_backstory =
     asc ''Expert research analyst at a tech think tank with 10+ years experience. '' @ [10] @
     asc ''        Specializes in identifying emerging trends, gathering verified information, '' @ [10] @
     asc ''        and presenting actionable insights with academic rigor.''"

definition writer_backstory :: pystr where
  "writer_backstory =
     asc ''Award-winning content strategist with 15+ industry awards. '' @ [10] @
     asc ''        Transforms complex technical concepts into engaging narratives for tech-savvy audiences'' @ [10] @
     asc ''        while maintaining factual accuracy and readability.''"

text \<open>
  \<open>create_agents\<close> (lines 32 to 55). The keyword arguments of each \<open>Agent(...)\<close> are
  evaluated before the call, \<open>llm=get_clarifai_llm(model_name)\<close> last.
\<close>

definition create_agents ::
    "ext \<Rightarrow> app_module \<Rightarrow> pystr \<Rightarrow> world \<Rightarrow> (exn + agent \<times> agent) \<times> world" where
  "create_agents x m model_name w =
     (case get_clarifai_llm x m model_name w of
        (Inl e, w1) \<Rightarrow> (Inl e, w1)
      | (Inr l1, w1) \<Rightarrow>
          (let researcher =
                 Agent (asc ''Senior Research Analyst'')
                   (asc ''Uncover cutting-edge developments and facts on a given topic'')
                   researcher_backstory [search_tool m] True False l1;
               w2 = emit [Call (CallAgent researcher)] w1 in
           case get_clarifai_llm x m model_name w2 of
             (Inl e, w3) \<Rightarrow> (Inl e, w3)
           | (Inr l2, w3) \<Rightarrow>
               (let writer =
                      Agent (asc ''Tech Content Strategist'')
                        (asc ''Craft compelling blog posts on technical topics'')
                        writer_backstory [] True True l2
                in (Inr (researcher, writer), emit [Call (CallAgent writer)] w3))))"

definition research_description :: "pystr \<Rightarrow> pystr" where
  "research_description topic =
     asc ''Conduct comprehensive analysis of '' @ [39] @ topic @ [39] @ asc ''. '' @ [10] @
     asc ''        Identify: '' @ [10] @
     asc ''        - Key trends and breakthrough technologies '' @ [10] @
     asc ''        - Major players and institutions '' @ [10] @
     asc ''        - Potential industry impacts'' @ [10] @
     asc ''        - Verified sources and data points''"

definition writing_description :: "pystr \<Rightarrow> pystr" where
  "writing_description topic =
     asc ''Using research on '' @ [39] @ topic @ [39] @
     asc '', develop an engaging blog post with:'' @ [10] @
     asc ''        - Compelling headline'' @ [10] @
     asc ''        - Clear introduction'' @ [10] @
     asc ''        - 3-5 body paragraphs with supporting evidence'' @ [10] @
     asc ''        - Conclusion with future outlook'' @ [10] @
     asc ''        - Accessible language with technical terms explained'' @ [10] @
     asc ''        Format requirements:'' @ [10] @
     asc ''        # Title'' @ [10] @
     asc ''        ## Section headers'' @ [10] @
     asc ''        **Bold** for emphasis'' @ [10] @
     asc ''        - Bullet points where appropriate'' @ [10] @
     asc ''        > Blockquotes for important insights'' @ [10] @
     asc ''        NO code blocks or triple backticks''"

text \<open>\<open>create_tasks\<close> (lines 58 to 88).\<close>

definition create_tasks :: "pystr \<Rightarrow> agent \<Rightarrow> agent \<Rightarrow> world \<Rightarrow> (task \<times> task) \<times> world" where
  "create_tasks topic researcher writer w =
     (let research_task =
            Task (research_description topic)
              (asc ''Detailed analysis report with bullet points and sources'') researcher [];
          writing_task =
            Task (writing_description topic)
              (asc ''4-5 paragraph blog post in clean markdown'') writer [research_task]
      in ((research_task, writing_task),
          emit [Call (CallTask research_task), Call (CallTask writing_task)] w))"

text \<open>The body of \<open>run_blog_generation\<close> (lines 93 to 102), without its decorator.\<close>

definition run_blog_generation_body ::
    "ext \<Rightarrow> app_module \<Rightarrow> pystr \<Rightarrow> pystr \<Rightarrow> world \<Rightarrow> (exn + crew_result) \<times> world" where
  "run_blog_generation_body x m topic model_name w =
     (case create_agents x m model_name w of
        (Inl e, w1) \<Rightarrow> (Inl e, w1)
      | (Inr (researcher, writer), w1) \<Rightarrow>
          (case create_tasks topic researcher writer w1 of
             ((research_task, writing_task), w2) \<Rightarrow>
               (let c = Crew [researcher, writer] [research_task, writing_task] sequential
                          (VInt 1)
                in (kickoff x c, emit [Call (CallCrew c), Call (CallKickoff c)] w2))))"

text \<open>
  Modelled from the spec: the decorator \<open>@st.cache_data(ttl=3600)\<close> is Streamlit's, not
  code of the repository. The spec describes it as a read-through cache keyed by
  (topic, model) with a one-hour validity window: a hit within the window returns the
  stored result and skips the body; a miss runs the body and stores its result, with
  the time of the call, only when the body returns. Time is in seconds.
\<close>

definition ttl :: nat where
  "ttl = 3600"

definition run_blog_generation ::
    "ext \<Rightarrow> app_module \<Rightarrow> nat \<Rightarrow> pystr \<Rightarrow> pystr \<Rightarrow> world \<Rightarrow> (exn + crew_result) \<times> world" where
  "run_blog_generation x m now topic model_name w =
     (case (case cache w (topic, model_name) of
              None \<Rightarrow> None
            | Some (r, t) \<Rightarrow> if now < t + ttl then Some r else None) of
        Some r \<Rightarrow> (Inr r, w)
      | None \<Rightarrow>
          (case run_blog_generation_body x m topic model_name w of
             (Inl e, w1) \<Rightarrow> (Inl e, w1)
           | (Inr r, w1) \<Rightarrow>
               (Inr r, w1\<lparr>cache := (cache w1)((topic, model_name) \<mapsto> (r, now))\<rparr>)))"

text \<open>
  What one run of the script receives: the selected model, the text of the topic
  field, whether the generate button was clicked, and the time of the run.
\<close>

record inputs =
  in_model :: pystr
  in_topic :: pystr
  in_clicked :: bool
  in_now :: nat

text \<open>The \<open>disabled\<close> argument of the generate button (line 134): \<open>not topic.strip()\<close>.\<close>

definition generate_disabled :: "pystr \<Rightarrow> bool" where
  "generate_disabled topic = (\<not> truthy (strip topic))"

text \<open>The status box and the three progress lines (lines 135 to 138).\<close>

definition main_progress :: "event list" where
  "main_progress =
     [UI (st_status ([129504] @ asc '' Generating content...'')),
      UI (st_write (asc ''1. Researching topic...'')),
      UI (st_write (asc ''2. Analyzing findings...'')),
      UI (st_write (asc ''3. Writing blog post...''))]"

text \<open>
  \<open>main\<close> (lines 105 to 155), from the widgets the handler reads. The page furniture
  written before them (title, sidebar, help text) carries nothing of a run and is left
  out.
\<close>

definition main :: "ext \<Rightarrow> app_module \<Rightarrow> inputs \<Rightarrow> world \<Rightarrow> world" where
  "main x m inp w =
     (if st_button (generate_disabled (in_topic inp)) (in_clicked inp) then
        (let w1 = emit main_progress w in
         case run_blog_generation x m (in_now inp) (in_topic inp) (in_model inp) w1 of
           (Inr result, w2) \<Rightarrow>
             emit [UI (status_update ([9989] @ asc '' Blog generated!'')),
                   UI (st_markdown (asc ''---'')),
                   UI (st_subheader (asc ''Generated Content'')),
                   UI (st_markdown (py_str result)),
                   UI (st_download_button ([128229] @ asc '' Download Markdown'')
                         (py_str result) (file_name (in_topic inp)) (asc ''text/markdown''))] w2
         | (Inl e, w2) \<Rightarrow> emit [UI (st_error (asc ''Error: '' @ exn_str e))] w2)
      else w)"

text \<open>One run of the script: the top-level statements, then \<open>main()\<close>.\<close>

definition app_script :: "ext \<Rightarrow> inputs \<Rightarrow> world \<Rightarrow> unit flow \<times> world" where
  "app_script x inp w =
     (case load_app x w of
        (Ret m, w1) \<Rightarrow> (Ret (), main x m inp w1)
      | (Raise e, w1) \<Rightarrow> (Raise e, w1)
      | (Stop, w1) \<Rightarrow> (Stop, w1))"

text \<open>
  A session: Streamlit runs the script again at every interaction, on the world the
  previous run left.
\<close>

fun session :: "ext \<Rightarrow> inputs list \<Rightarrow> world \<Rightarrow> world" where
  "session x [] w = w"
| "session x (inp # inps) w = session x inps (snd (app_script x inp w))"

section \<open>The form-credential app, \<open>AL_Blog_Post/app.py\<close>\<close>

text \<open>
  The package checks of lines 7 to 36 pass when \<open>crewai\<close> and \<open>crewai_tools\<close> are
  installed, which is the case modelled; the script is then \<open>main()\<close>.
  What one run of the script receives: the texts of the two credential fields
  (\<open>None\<close> while a field is untouched and shows its default), the selected model, the
  text of the topic field, and whether the generate button was clicked.
\<close>

record form_inputs =
  f_pat :: "pystr option"
  f_key :: "pystr option"
  f_model :: pystr
  f_topic :: pystr
  f_clicked :: bool

text \<open>The messages of the "Environment Setup" expander (lines 62 to 68).\<close>

definition post_setup_messages :: "pystr \<Rightarrow> pystr \<Rightarrow> event list" where
  "post_setup_messages clarifai_pat serper_key =
     (if \<not> truthy clarifai_pat
        then [UI (st_warning ([9888, 65039] @ asc '' CLARIFAI_PAT is required''))] else []) @
     (if \<not> truthy serper_key
        then [UI (st_warning ([9888, 65039] @ asc '' SERPER_API_KEY is required''))] else []) @
     (if truthy clarifai_pat \<and> truthy serper_key
        then [UI (st_success ([9989] @ asc '' All environment variables are set''))] else [])"

text \<open>
  The \<open>disabled\<close> argument of the generate button (line 96):
  \<open>not (topic and clarifai_pat and serper_key)\<close>.
\<close>

definition post_generate_disabled :: "pystr \<Rightarrow> pystr \<Rightarrow> pystr \<Rightarrow> bool" where
  "post_generate_disabled topic clarifai_pat serper_key =
     (\<not> (truthy topic \<and> truthy clarifai_pat \<and> truthy serper_key))"

text \<open>The two agents (lines 137 to 154).\<close>

definition post_researcher :: "pystr \<Rightarrow> tool \<Rightarrow> llm \<Rightarrow> agent" where
  "post_researcher topic t l =
     Agent (asc ''Research Analyst'')
       (asc ''Research comprehensive information about '' @ topic)
       (asc ''You are an expert research analyst with deep knowledge across various domains.'')
       [t] False False l"

definition post_writer :: "pystr \<Rightarrow> llm \<Rightarrow> agent" where
  "post_writer topic l =
     Agent (asc ''Content Writer'')
       (asc ''Write an engaging blog post about '' @ topic)
       (asc ''You are a skilled content writer who creates engaging and informative blog posts.'')
       [] False False l"

text \<open>The two tasks (lines 160 to 171).\<close>

definition post_research_task :: "pystr \<Rightarrow> agent \<Rightarrow> task" where
  "post_research_task topic researcher =
     Task (asc ''Research and gather comprehensive information about '' @ topic @
           asc ''. Focus on recent developments, key facts, and reliable sources.'')
       (asc ''A detailed research summary with key findings and sources'') researcher []"

definition post_writing_task :: "pystr \<Rightarrow> agent \<Rightarrow> task \<Rightarrow> task" where
  "post_writing_task topic writer research_task =
     Task (asc ''Write a well-structured blog post about '' @ topic @
           asc '' using the research provided. Include an engaging title, introduction, main content sections, and conclusion.'')
       (asc ''A complete blog post in markdown format with proper headings and structure'')
       writer [research_task]"

text \<open>
  The crew the block below builds and runs (lines 137 to 182), as a function of the
  topic, the search tool and the LLM.
\<close>

definition post_crew :: "pystr \<Rightarrow> tool \<Rightarrow> llm \<Rightarrow> crew" where
  "post_crew topic t l =
     (let researcher = post_researcher topic t l;
          writer = post_writer topic l;
          research_task = post_research_task topic researcher;
          writing_task = post_writing_task topic writer research_task
      in Crew [researcher, writer] [research_task, writing_task] sequential (VBool False))"

text \<open>
  The \<open>with st.status(...)\<close> block (lines 110 to 187). A constructor that raises is
  reported and followed by \<open>st.stop()\<close>; an exception of \<open>crew.kickoff()\<close> leaves the
  block.
\<close>

definition post_generate ::
    "ext \<Rightarrow> pystr \<Rightarrow> pystr \<Rightarrow> pystr \<Rightarrow> pystr \<Rightarrow> world \<Rightarrow> crew_result flow \<times> world" where
  "post_generate x model_name topic clarifai_pat serper_key w =
     (let l = LLM (asc ''clarifai/'' @ model_name) clarifai_pat None;
          w1 = emit [UI (st_status ([129504] @ asc '' Generating content...'')),
                     UI (st_write (asc ''1. Initializing LLM...'')),
                     Call (CallLLM l)] w in
      case LLM_raises x l of
        Some e \<Rightarrow>
          (Stop, emit [UI (st_error (asc ''LLM initialization failed: '' @ exn_str e))] w1)
      | None \<Rightarrow>
          (let t = SerperDevTool (Some serper_key);
               w2 = emit [UI (st_write ([9989] @ asc '' LLM initialized'')),
                          UI (st_write (asc ''2. Setting up search tool...'')),
                          Call (CallSerperDevTool t)] w1 in
           case SerperDevTool_raises x t of
             Some e \<Rightarrow>
               (Stop,
                emit [UI (st_error (asc ''Search tool initialization failed: '' @ exn_str e))] w2)
           | None \<Rightarrow>
               (let researcher = post_researcher topic t l;
                    writer = post_writer topic l;
                    research_task = post_research_task topic researcher;
                    writing_task = post_writing_task topic writer research_task;
                    c = Crew [researcher, writer] [research_task, writing_task] sequential
                          (VBool False);
                    w3 = emit [UI (st_write ([9989] @ asc '' Search tool ready'')),
                               UI (st_write (asc ''3. Creating agents...'')),
                               Call (CallAgent researcher),
                               Call (CallAgent writer),
                               UI (st_write ([9989] @ asc '' Agents created'')),
                               UI (st_write (asc ''4. Setting up tasks...'')),
                               Call (CallTask research_task),
                               Call (CallTask writing_task),
                               UI (st_write ([9989] @ asc '' Tasks configured'')),
                               UI (st_write (asc ''5. Running crew...'')),
                               Call (CallCrew c),
                               Call (CallKickoff c)] w2 in
                case kickoff x c of
                  Inl e \<Rightarrow> (Raise e, w3)
                | Inr result \<Rightarrow>
                    (Ret result,
                     emit [UI (status_update ([9989] @ asc '' Blog generated successfully!''))]
                       w3))))"

text \<open>The text shown and offered for download (lines 194 to 199).\<close>

definition post_content :: "crew_result \<Rightarrow> pystr" where
  "post_content result = (case result of HasRaw raw s \<Rightarrow> raw | IsStr s \<Rightarrow> s | Other s \<Rightarrow> s)"

text \<open>The display of a result (lines 190 to 209).\<close>

definition post_display :: "pystr \<Rightarrow> crew_result \<Rightarrow> event list" where
  "post_display topic result =
     [UI (st_markdown (asc ''---'')),
      UI (st_subheader (asc ''Generated Blog Post'')),
      UI (st_markdown (post_content result)),
      UI (st_download_button ([128229] @ asc '' Download as Markdown'') (post_content result)
            (file_name topic) (asc ''text/markdown''))]"

text \<open>The handler of the outer \<open>try\<close> (lines 211 to 227).\<close>

definition post_report :: "ext \<Rightarrow> exn \<Rightarrow> event list" where
  "post_report x e =
     [UI (st_error (asc ''Error occurred: '' @ exn_str e)),
      UI (st_expander ([128027] @ asc '' Debug Information'')),
      UI (st_code ([10] @ asc ''Error Type: '' @ exn_type e @ [10] @
                   asc ''Error Message: '' @ exn_str e @ [10] @
                   asc ''Python Version: '' @ sys_version x @ [10] @
                   asc ''                '')),
      UI (st_write (case crewai_version x of
                      Some v \<Rightarrow> asc ''CrewAI Version: '' @ v
                    | None \<Rightarrow> asc ''CrewAI Version: Unknown''))]"

text \<open>
  \<open>main\<close> (lines 38 to 227), from the widgets the handler reads; the page furniture is
  left out as in the other app. The two assignments to \<open>os.environ\<close> (lines 106 and 107)
  stand before the \<open>try\<close>: an exception of either leaves \<open>main\<close>, with what was written
  before it still written.
\<close>

definition post_main :: "ext \<Rightarrow> form_inputs \<Rightarrow> world \<Rightarrow> unit flow \<times> world" where
  "post_main x inp w =
     (let clarifai_pat = st_text_input (os_getenv_default w ''CLARIFAI_PAT'' []) (f_pat inp);
          serper_key = st_text_input (os_getenv_default w ''SERPER_API_KEY'' []) (f_key inp);
          w0 = emit (post_setup_messages clarifai_pat serper_key) w;
          topic = f_topic inp in
      if st_button (post_generate_disabled topic clarifai_pat serper_key) (f_clicked inp) then
        if \<not> truthy (strip topic) then
          (Ret (), emit [UI (st_warning (asc ''Please enter a valid topic''))] w0)
        else if \<not> truthy clarifai_pat \<or> \<not> truthy serper_key then
          (Ret (), emit [UI (st_error (asc ''Please provide both API keys''))] w0)
        else
          (case os_environ_set x ''CLARIFAI_PAT'' clarifai_pat w0 of
             Inl e \<Rightarrow> (Raise e, w0)
           | Inr w1 \<Rightarrow>
               (case os_environ_set x ''SERPER_API_KEY'' serper_key w1 of
                  Inl e \<Rightarrow> (Raise e, w1)
                | Inr w2 \<Rightarrow>
                    (case post_generate x (f_model inp) topic clarifai_pat serper_key w2 of
                       (Ret result, w3) \<Rightarrow> (Ret (), emit (post_display topic result) w3)
                     | (Raise e, w3) \<Rightarrow> (Ret (), emit (post_report x e) w3)
                     | (Stop, w3) \<Rightarrow> (Stop, w3))))
      else (Ret (), w0))"

section \<open>Reading a trace\<close>

text \<open>The events a run added to the trace.\<close>

definition news :: "world \<Rightarrow> world \<Rightarrow> event list" where
  "news w w' = drop (length (trace w)) (trace w')"

text \<open>The three projections of a trace: library calls, environment writes, page elements.\<close>

fun calls_of :: "event list \<Rightarrow> call list" where
  "calls_of [] = []"
| "calls_of (Call c # es) = c # calls_of es"
| "calls_of (e # es) = calls_of es"

fun setenvs :: "event list \<Rightarrow> (pystr \<times> pystr) list" where
  "setenvs [] = []"
| "setenvs (SetEnv k v # es) = (k, v) # setenvs es"
| "setenvs (e # es) = setenvs es"

fun shown :: "event list \<Rightarrow> ui list" where
  "shown [] = []"
| "shown (UI u # es) = u # shown es"
| "shown (e # es) = shown es"

text \<open>The crews handed to \<open>kickoff\<close>, in order: the invocations of the agent runtime.\<close>

fun kickoffs :: "event list \<Rightarrow> crew list" where
  "kickoffs [] = []"
| "kickoffs (Call (CallKickoff c) # es) = c # kickoffs es"
| "kickoffs (e # es) = kickoffs es"

text \<open>
  The page elements that carry the text of a result: both apps show a result with
  \<open>st.markdown\<close> and offer it with \<open>st.download_button\<close>, and use neither otherwise.
\<close>

fun result_views :: "event list \<Rightarrow> ui list" where
  "result_views [] = []"
| "result_views (UI (st_markdown s) # es) = st_markdown s # result_views es"
| "result_views (UI (st_download_button a b c d) # es) =
     st_download_button a b c d # result_views es"
| "result_views (e # es) = result_views es"

section \<open>Concrete runs\<close>

text \<open>A process that has just started: no cached result, nothing done yet.\<close>

definition init :: "(pystr \<rightharpoonup> pystr) \<Rightarrow> world" where
  "init env = \<lparr>environ = env, cache = Map.empty, trace = []\<rparr>"

definition demo_env :: "pystr \<rightharpoonup> pystr" where
  "demo_env = [asc ''CLARIFAI_PAT'' \<mapsto> asc ''pat-1'', asc ''SERPER_API_KEY'' \<mapsto> asc ''key-1'']"

text \<open>Collaborators that work, and collaborators whose \<open>kickoff\<close> raises.\<close>

definition demo_ext :: ext where
  "demo_ext =
     \<lparr>LLM_raises = (\<lambda>l. None), SerperDevTool_raises = (\<lambda>t. None),
      kickoff = (\<lambda>c. Inr (HasRaw (asc ''# Post'') (asc ''# Post''))),
      sys_version = asc ''3.11.4'', crewai_version = Some (asc ''0.28.8''),
      encode_error_str = (\<lambda>v. asc ''surrogates not allowed'')\<rparr>"

definition timeout_error :: exn where
  "timeout_error = Exn (asc ''TimeoutError'') (asc ''search timed out'')"

definition failing_ext :: ext where
  "failing_ext = demo_ext\<lparr>kickoff := (\<lambda>c. Inl timeout_error)\<rparr>"

definition gemini :: pystr where
  "gemini = asc ''gcp/generate/models/gemini-2_5-pro''"

definition llama :: pystr where
  "llama = asc ''meta/llama-3_1-8b-instruct''"

text \<open>The module as \<open>load_app\<close> leaves it under \<open>demo_env\<close>.\<close>

definition demo_module :: app_module where
  "demo_module =
     \<lparr>names = app_names, CLARIFAI_PAT = asc ''pat-1'', SERPER_API_KEY = asc ''key-1'',
      search_tool = SerperDevTool None\<rparr>"

text \<open>A click in the form app, both keys entered, for the topic "My Topic!!".\<close>

definition demo_form :: form_inputs where
  "demo_form =
     \<lparr>f_pat = Some (asc ''pat-1''), f_key = Some (asc ''key-1''), f_model = llama,
      f_topic = asc ''My Topic!!'', f_clicked = True\<rparr>"

text \<open>
  A click on the generate button of the environment-credential app at a given time, for
  the topic "Quantum Computing in Healthcare" and the first model of the selector; and
  three such clicks, the third more than an hour after the first.
\<close>

definition quantum_click :: "nat \<Rightarrow> inputs" where
  "quantum_click now =
     \<lparr>in_model = gemini, in_topic = asc ''Quantum Computing in Healthcare'',
      in_clicked = True, in_now = now\<rparr>"

definition three_clicks :: "inputs list" where
  "three_clicks = [quantum_click 0, quantum_click 60, quantum_click 3661]"

text \<open>A click in the form app, both keys entered, for a topic of two spaces.\<close>

definition blank_form :: form_inputs where
  "blank_form =
     \<lparr>f_pat = Some (asc ''pat-1''), f_key = Some (asc ''key-1''), f_model = llama,
      f_topic = asc ''  '', f_clicked = True\<rparr>"

text \<open>Collaborators whose \<open>LLM(...)\<close>, or whose \<open>SerperDevTool(...)\<close>, raises.\<close>

definition denied_error :: exn where
  "denied_error = Exn (asc ''AuthenticationError'') (asc ''invalid token'')"

definition llm_failing_ext :: ext where
  "llm_failing_ext = demo_ext\<lparr>LLM_raises := (\<lambda>l. Some denied_error)\<rparr>"

definition search_failing_ext :: ext where
  "search_failing_ext = demo_ext\<lparr>SerperDevTool_raises := (\<lambda>t. Some denied_error)\<rparr>"

text \<open>
  Environments in which \<open>CLARIFAI_PAT\<close> is set to the empty string, and in which
  \<open>SERPER_API_KEY\<close> is not set.
\<close>

definition empty_pat_env :: "pystr \<rightharpoonup> pystr" where
  "empty_pat_env = [asc ''CLARIFAI_PAT'' \<mapsto> [], asc ''SERPER_API_KEY'' \<mapsto> asc ''key-1'']"

definition pat_only_env :: "pystr \<rightharpoonup> pystr" where
  "pat_only_env = [asc ''CLARIFAI_PAT'' \<mapsto> asc ''pat-1'']"

text \<open>The module of the first app as it would be with \<open>LLM\<close> among its imports.\<close>

definition patched_module :: app_module where
  "patched_module = demo_module\<lparr>names := ''LLM'' # app_names\<rparr>"

text \<open>A session of the form app: the script runs again at every interaction.\<close>

fun post_session :: "ext \<Rightarrow> form_inputs list \<Rightarrow> world \<Rightarrow> world" where
  "post_session x [] w = w"
| "post_session x (inp # inps) w = post_session x inps (snd (post_main x inp w))"

text \<open>
  The events of the form app's status block up to and including the call of
  \<open>kickoff\<close>, when both constructors return.
\<close>

definition post_steps :: "pystr \<Rightarrow> pystr \<Rightarrow> pystr \<Rightarrow> pystr \<Rightarrow> event list" where
  "post_steps model_name topic clarifai_pat serper_key =
     (let l = LLM (asc ''clarifai/'' @ model_name) clarifai_pat None;
          t = SerperDevTool (Some serper_key);
          c = post_crew topic t l in
      [UI (st_status ([129504] @ asc '' Generating content...'')),
       UI (st_write (asc ''1. Initializing LLM...'')),
       Call (CallLLM l),
       UI (st_write ([9989] @ asc '' LLM initialized'')),
       UI (st_write (asc ''2. Setting up search tool...'')),
       Call (CallSerperDevTool t),
       UI (st_write ([9989] @ asc '' Search tool ready'')),
       UI (st_write (asc ''3. Creating agents...'')),
       Call (CallAgent (crew_agents c ! 0)),
       Call (CallAgent (crew_agents c ! 1)),
       UI (st_write ([9989] @ asc '' Agents created'')),
       UI (st_write (asc ''4. Setting up tasks...'')),
       Call (CallTask (crew_tasks c ! 0)),
       Call (CallTask (crew_tasks c ! 1)),
       UI (st_write ([9989] @ asc '' Tasks configured'')),
       UI (st_write (asc ''5. Running crew...'')),
       Call (CallCrew c),
       Call (CallKickoff c)])"

text \<open>
  A click in the form app whose search key holds a NUL code point (\<open>k\<close>, NUL, \<open>1\<close>), and
  a run of the form app in which nothing is entered and nothing is clicked.
\<close>

definition nul_form :: form_inputs where
  "nul_form =
     \<lparr>f_pat = Some (asc ''pat-1''), f_key = Some [107, 0, 49], f_model = llama,
      f_topic = asc ''My Topic!!'', f_clicked = True\<rparr>"

definition idle_form :: form_inputs where
  "idle_form =
     \<lparr>f_pat = None, f_key = None, f_model = llama, f_topic = [], f_clicked = False\<rparr>"

section \<open>Strings\<close>

lemma asc_eq_iff [simp]: "asc a = asc b \<longleftrightarrow> a = b"
  unfolding asc_def by (simp add: inj_map_eq_map inj_def)

lemma asc_Nil_iff [simp]: "asc s = [] \<longleftrightarrow> s = []"
  by (simp add: asc_def)

lemma strip_Nil_iff: "strip s = [] \<longleftrightarrow> (\<forall>c\<in>set s. isspace c)"
proof
  assume "strip s = []"
  then have all: "\<forall>c\<in>set (dropWhile isspace s). isspace c"
    by (simp add: strip_def dropWhile_eq_Nil_conv)
  have "dropWhile isspace s = []"
  proof (rule ccontr)
    assume ne: "dropWhile isspace s \<noteq> []"
    then have "\<not> isspace (hd (dropWhile isspace s))" by (rule hd_dropWhile)
    moreover have "hd (dropWhile isspace s) \<in> set (dropWhile isspace s)"
      using ne by simp
    ultimately show False using all by blast
  qed
  then show "\<forall>c\<in>set s. isspace c" by (simp add: dropWhile_eq_Nil_conv)
next
  assume "\<forall>c\<in>set s. isspace c"
  then have d: "dropWhile isspace s = []" by (simp add: dropWhile_eq_Nil_conv)
  show "strip s = []" by (simp add: strip_def d)
qed

lemma replace_from_single:
  "replace_from [a] [b] s = map (\<lambda>c. if c = a then b else c) s"
proof (induction s)
  case Nil
  then show ?case by (simp add: replace_from.simps)
next
  case (Cons c s)
  then show ?case
    by (subst replace_from.simps) simp
qed

lemma replace_single: "replace [a] [b] s = map (\<lambda>c. if c = a then b else c) s"
  by (simp add: replace_def replace_from_single)

lemma file_name_eq:
  "file_name topic = take 30 (map (\<lambda>c. if c = 32 then 95 else c) topic) @ asc ''_blog.md''"
proof -
  have "asc '' '' = [32]" "asc ''_'' = [95]" by (simp_all add: asc_def)
  then show ?thesis by (simp add: file_name_def replace_single)
qed

section \<open>Traces of the functions\<close>

lemma trace_emit [simp]: "trace (emit es w) = trace w @ es"
  by (simp add: emit_def)

lemma environ_emit [simp]: "environ (emit es w) = environ w"
  by (simp add: emit_def)

lemma cache_emit [simp]: "cache (emit es w) = cache w"
  by (simp add: emit_def)

lemma emit_emit [simp]: "emit fs (emit es w) = emit (es @ fs) w"
  by (simp add: emit_def)

lemma environ_written_simps [simp]:
  "trace (environ_written k v w) = trace w @ [SetEnv (asc k) v]"
  "environ (environ_written k v w) = (environ w)(asc k \<mapsto> v)"
  "cache (environ_written k v w) = cache w"
  by (simp_all add: environ_written_def)

lemma os_environ_set_accepts:
  "environ_accepts v \<Longrightarrow> os_environ_set x k v w = Inr (environ_written k v w)"
  by (simp add: os_environ_set_def environ_accepts_def)

lemma os_environ_set_Inr:
  "os_environ_set x k v w = Inr w' \<Longrightarrow> w' = environ_written k v w \<and> environ_accepts v"
  by (auto simp: os_environ_set_def environ_accepts_def split: if_splits)

lemma os_environ_set_Inl:
  "os_environ_set x k v w = Inl e \<Longrightarrow> \<not> environ_accepts v"
  by (auto simp: os_environ_set_def environ_accepts_def split: if_splits)

lemma accepts_demo: "environ_accepts (asc ''pat-1'')" "environ_accepts (asc ''key-1'')"
  by (simp_all add: environ_accepts_def asc_def lone_surrogate_def)

lemma news_append [simp]: "trace w' = trace w @ es \<Longrightarrow> news w w' = es"
  by (simp add: news_def)

lemma news_emit [simp]: "news w (emit es w) = es"
  by (simp add: news_def)

lemma calls_of_append [simp]: "calls_of (es @ fs) = calls_of es @ calls_of fs"
  by (induction es rule: calls_of.induct) simp_all

lemma setenvs_append [simp]: "setenvs (es @ fs) = setenvs es @ setenvs fs"
  by (induction es rule: setenvs.induct) simp_all

lemma shown_append [simp]: "shown (es @ fs) = shown es @ shown fs"
  by (induction es rule: shown.induct) simp_all

lemma kickoffs_append [simp]: "kickoffs (es @ fs) = kickoffs es @ kickoffs fs"
  by (induction es rule: kickoffs.induct) simp_all

lemma result_views_append [simp]:
  "result_views (es @ fs) = result_views es @ result_views fs"
  by (induction es rule: result_views.induct) simp_all

section \<open>The unbound name\<close>

lemma LLM_unbound: "''LLM'' \<notin> set app_names"
  by (simp add: app_names_def)

lemma get_clarifai_llm_unbound:
  "names m = app_names \<Longrightarrow> get_clarifai_llm x m model_name w = (Inl (NameError ''LLM''), w)"
  by (simp add: get_clarifai_llm_def LLM_unbound)

lemma create_agents_unbound:
  "names m = app_names \<Longrightarrow> create_agents x m model_name w = (Inl (NameError ''LLM''), w)"
  by (simp add: create_agents_def get_clarifai_llm_unbound)

lemma load_app_names: "load_app x w = (Ret m, w1) \<Longrightarrow> names m = app_names"
  by (auto simp: load_app_def Let_def split: if_splits option.splits)

lemma load_app_demo:
  "load_app demo_ext (init demo_env) =
     (Ret demo_module, emit [Call (CallSerperDevTool (SerperDevTool None))] (init demo_env))"
  by (simp add: load_app_def demo_ext_def demo_env_def init_def demo_module_def falsy_def
      os_getenv_def os_getenv_default_def Let_def)

text \<open>
  C2. Claim: for every model identifier and every credentials value, constructing the
  two agent descriptors succeeds and raises no error. In the environment-credential
  app it never succeeds: \<open>create_agents\<close> calls \<open>get_clarifai_llm\<close>, whose body names
  \<open>LLM\<close>, and the module never imports \<open>LLM\<close>. For every module value with the names the
  app binds (whatever its credentials), and so for every module the top-level
  statements produce, every model identifier and every world, \<open>create_agents\<close> raises
  \<open>NameError\<close> before any constructor of the library is called.
\<close>

theorem create_agents_raises_NameError:
  "create_agents x (m\<lparr>names := app_names\<rparr>) model_name w = (Inl (NameError ''LLM''), w) \<and>
   (load_app x w0 = (Ret m', w1) \<longrightarrow>
      create_agents x m' model_name w = (Inl (NameError ''LLM''), w))"
  by (auto simp: create_agents_unbound dest: load_app_names)

theorem create_agents_raises_NameError_witness:
  "load_app demo_ext (init demo_env) =
     (Ret demo_module, emit [Call (CallSerperDevTool (SerperDevTool None))] (init demo_env)) \<and>
   create_agents demo_ext demo_module gemini (init demo_env) =
     (Inl (Exn (asc ''NameError'') (asc ''name '' @ [39] @ asc ''LLM'' @ [39] @ asc '' is not defined'')),
      init demo_env)"
  using create_agents_raises_NameError
    [of demo_ext demo_module gemini "init demo_env" "init demo_env" demo_module
        "emit [Call (CallSerperDevTool (SerperDevTool None))] (init demo_env)"]
  by (simp add: load_app_demo NameError_def)

section \<open>What each function adds to the trace\<close>

lemma UI_in_set_iff: "UI u \<in> set es \<longleftrightarrow> u \<in> set (shown es)"
  by (induction es rule: shown.induct) auto

lemma download_in_result_views:
  "UI (st_download_button a b c d) \<in> set es \<longleftrightarrow>
     st_download_button a b c d \<in> set (result_views es)"
  by (induction es rule: result_views.induct) auto

lemma shown_result_views: "shown es = [] \<Longrightarrow> result_views es = []"
  by (induction es rule: result_views.induct) simp_all

lemma get_clarifai_llm_trace:
  "get_clarifai_llm x m mn w = (r, w') \<Longrightarrow>
     \<exists>es. trace w' = trace w @ es \<and> kickoffs es = [] \<and> shown es = [] \<and> setenvs es = [] \<and>
          environ w' = environ w \<and> cache w' = cache w"
  by (auto simp: get_clarifai_llm_def Let_def split: if_splits option.splits)

lemma create_agents_trace:
  "create_agents x m mn w = (r, w') \<Longrightarrow>
     \<exists>es. trace w' = trace w @ es \<and> kickoffs es = [] \<and> shown es = [] \<and> setenvs es = [] \<and>
          environ w' = environ w \<and> cache w' = cache w"
  by (auto simp: create_agents_def get_clarifai_llm_def Let_def split: if_splits option.splits)

lemma run_blog_generation_body_trace:
  "run_blog_generation_body x m t mn w = (r, w') \<Longrightarrow>
     \<exists>es. trace w' = trace w @ es \<and> length (kickoffs es) \<le> 1 \<and> shown es = [] \<and>
          setenvs es = [] \<and> environ w' = environ w"
  unfolding run_blog_generation_body_def
  by (auto simp: create_tasks_def Let_def split: prod.splits sum.splits
      dest!: create_agents_trace)

lemma run_blog_generation_trace:
  "run_blog_generation x m now t mn w = (r, w') \<Longrightarrow>
     \<exists>es. trace w' = trace w @ es \<and> length (kickoffs es) \<le> 1 \<and> shown es = [] \<and>
          setenvs es = [] \<and> environ w' = environ w"
  unfolding run_blog_generation_def
  by (auto split: option.splits prod.splits sum.splits if_splits
      dest!: run_blog_generation_body_trace)

lemma post_generate_trace:
  "post_generate x mn t p k w = (r, w') \<Longrightarrow>
     \<exists>es. trace w' = trace w @ es \<and> result_views es = [] \<and> setenvs es = [] \<and>
          length (kickoffs es) \<le> 1 \<and> environ w' = environ w \<and> cache w' = cache w"
  unfolding post_generate_def
  by (auto simp: Let_def split: option.splits sum.splits)

section \<open>The name of the downloaded file\<close>

lemma main_downloads:
  "UI (st_download_button a b c d) \<in> set (news w (main x m inp w)) \<Longrightarrow>
     c = file_name (in_topic inp)"
  unfolding main_def
  by (auto simp: Let_def UI_in_set_iff news_def main_progress_def
      split: if_splits prod.splits sum.splits dest!: run_blog_generation_trace)

lemma post_main_downloads:
  "UI (st_download_button a b c d) \<in> set (news w (snd (post_main x inp w))) \<Longrightarrow>
     c = file_name (f_topic inp)"
  unfolding post_main_def
  by (auto simp: Let_def download_in_result_views news_def post_display_def
      post_report_def post_setup_messages_def
      split: if_splits prod.splits flow.splits sum.splits
      dest!: post_generate_trace os_environ_set_Inr)

lemma strip_demo: "strip (asc ''My Topic!!'') = asc ''My Topic!!''"
  by (simp add: strip_def asc_def isspace_def)

lemma file_name_demo: "file_name (asc ''My Topic!!'') = asc ''My_Topic!!_blog.md''"
  by (simp add: file_name_eq asc_def)

lemma file_name_prefix:
  "file_name (asc ''My Topic!!'') = asc ''My_Topic'' @ asc ''!!_blog.md''"
  by (simp add: file_name_eq asc_def)

lemmas demo_run_defs =
  post_main_def demo_form_def demo_ext_def init_def Let_def st_text_input_def
  st_button_def post_generate_disabled_def truthy_def strip_demo post_generate_def
  os_environ_set_accepts accepts_demo environ_written_def post_display_def
  post_setup_messages_def emit_def post_content_def
  file_name_demo news_def os_getenv_default_def

lemma post_main_demo_shown:
  "shown (news (init Map.empty) (snd (post_main demo_ext demo_form (init Map.empty)))) =
     [st_success ([9989] @ asc '' All environment variables are set''),
      st_status ([129504] @ asc '' Generating content...''),
      st_write (asc ''1. Initializing LLM...''),
      st_write ([9989] @ asc '' LLM initialized''),
      st_write (asc ''2. Setting up search tool...''),
      st_write ([9989] @ asc '' Search tool ready''),
      st_write (asc ''3. Creating agents...''),
      st_write ([9989] @ asc '' Agents created''),
      st_write (asc ''4. Setting up tasks...''),
      st_write ([9989] @ asc '' Tasks configured''),
      st_write (asc ''5. Running crew...''),
      status_update ([9989] @ asc '' Blog generated successfully!''),
      st_markdown (asc ''---''),
      st_subheader (asc ''Generated Blog Post''),
      st_markdown (asc ''# Post''),
      st_download_button ([128229] @ asc '' Download as Markdown'') (asc ''# Post'')
        (asc ''My_Topic!!_blog.md'') (asc ''text/markdown'')]"
  by (simp add: demo_run_defs)

text \<open>
  C7. For every topic, the name of the downloaded file is the topic with each space
  (code point 32) replaced by an underscore (95), cut to its first 30 code points,
  followed by \<open>_blog.md\<close>; for the topic "My Topic!!" it begins with \<open>My_Topic\<close>.
  Every download button either app writes during a run carries that name.
\<close>

theorem download_file_name:
  "file_name topic = take 30 (map (\<lambda>c. if c = 32 then 95 else c) topic) @ asc ''_blog.md'' \<and>
   file_name (asc ''My Topic!!'') = asc ''My_Topic'' @ asc ''!!_blog.md'' \<and>
   (UI (st_download_button a b c d) \<in> set (news w (main x m inp w)) \<longrightarrow>
      c = file_name (in_topic inp)) \<and>
   (UI (st_download_button a' b' c' d') \<in> set (news v (snd (post_main x' finp v))) \<longrightarrow>
      c' = file_name (f_topic finp))"
proof (intro conjI impI)
  show "file_name topic = take 30 (map (\<lambda>c. if c = 32 then 95 else c) topic) @ asc ''_blog.md''"
    by (rule file_name_eq)
  show "file_name (asc ''My Topic!!'') = asc ''My_Topic'' @ asc ''!!_blog.md''"
    by (rule file_name_prefix)
  show "c = file_name (in_topic inp)"
    if "UI (st_download_button a b c d) \<in> set (news w (main x m inp w))"
    using that by (rule main_downloads)
  show "c' = file_name (f_topic finp)"
    if "UI (st_download_button a' b' c' d') \<in> set (news v (snd (post_main x' finp v)))"
    using that by (rule post_main_downloads)
qed

theorem download_file_name_witness:
  "st_download_button ([128229] @ asc '' Download as Markdown'') (asc ''# Post'')
        (asc ''My_Topic!!_blog.md'') (asc ''text/markdown'')
     \<in> set (shown (news (init Map.empty) (snd (post_main demo_ext demo_form (init Map.empty))))) \<and>
   asc ''My_Topic!!_blog.md'' = file_name (asc ''My Topic!!'') \<and>
   file_name (asc ''My Topic!!'') = asc ''My_Topic'' @ asc ''!!_blog.md''"
proof -
  let ?b = "st_download_button ([128229] @ asc '' Download as Markdown'') (asc ''# Post'')
              (asc ''My_Topic!!_blog.md'') (asc ''text/markdown'')"
  let ?w = "init Map.empty"
  note t = download_file_name
    [of "asc ''My Topic!!''" "[128229] @ asc '' Download as Markdown''" "asc ''# Post''"
        "asc ''My_Topic!!_blog.md''" "asc ''text/markdown''" ?w demo_ext demo_module
        "\<lparr>in_model = gemini, in_topic = [], in_clicked = False, in_now = 0\<rparr>"
        "[128229] @ asc '' Download as Markdown''" "asc ''# Post''"
        "asc ''My_Topic!!_blog.md''" "asc ''text/markdown''" ?w demo_ext demo_form]
  have ev: "?b \<in> set (shown (news ?w (snd (post_main demo_ext demo_form ?w))))"
    by (simp add: post_main_demo_shown)
  then have "UI ?b \<in> set (news ?w (snd (post_main demo_ext demo_form ?w)))"
    by (simp only: UI_in_set_iff)
  with t have "asc ''My_Topic!!_blog.md'' = file_name (f_topic demo_form)"
    by blast
  then have n: "asc ''My_Topic!!_blog.md'' = file_name (asc ''My Topic!!'')"
    by (simp add: demo_form_def)
  from t have p: "file_name (asc ''My Topic!!'') = asc ''My_Topic'' @ asc ''!!_blog.md''"
    by blast
  from ev n p show ?thesis by blast
qed

section \<open>No run of the environment-credential app reaches the agent runtime\<close>

lemma run_blog_generation_body_unbound:
  "names m = app_names \<Longrightarrow>
     run_blog_generation_body x m topic model_name w = (Inl (NameError ''LLM''), w)"
  by (simp add: run_blog_generation_body_def create_agents_unbound)

lemma run_blog_generation_unbound:
  "names m = app_names \<Longrightarrow> snd (run_blog_generation x m now topic model_name w) = w"
  by (simp add: run_blog_generation_def run_blog_generation_body_unbound
      split: option.splits prod.splits)

lemma run_blog_generation_unbound_miss:
  "names m = app_names \<Longrightarrow> cache w (topic, model_name) = None \<Longrightarrow>
     run_blog_generation x m now topic model_name w = (Inl (NameError ''LLM''), w)"
  by (simp add: run_blog_generation_def run_blog_generation_body_unbound)

lemma main_unbound:
  "names m = app_names \<Longrightarrow>
     \<exists>es. trace (main x m inp w) = trace w @ es \<and> calls_of es = [] \<and> setenvs es = [] \<and>
          cache (main x m inp w) = cache w \<and> environ (main x m inp w) = environ w"
  unfolding main_def Let_def
  apply (cases "run_blog_generation x m (in_now inp) (in_topic inp) (in_model inp)
          (emit main_progress w)")
  subgoal for r w'
    using run_blog_generation_unbound [of m x "in_now inp" "in_topic inp" "in_model inp"
          "emit main_progress w"]
    by (auto simp: main_progress_def split: sum.splits)
  done

lemma calls_kickoffs: "calls_of es = [] \<Longrightarrow> kickoffs es = []"
  by (induction es rule: kickoffs.induct) simp_all

lemma app_script_trace:
  "\<exists>es. trace (snd (app_script x inp w)) = trace w @ es \<and> kickoffs es = [] \<and> setenvs es = [] \<and>
          cache (snd (app_script x inp w)) = cache w \<and> environ (snd (app_script x inp w)) = environ w"
proof (cases "load_app x w")
  case (Pair f w1)
  have l: "\<exists>es. trace w1 = trace w @ es \<and> kickoffs es = [] \<and> setenvs es = [] \<and> cache w1 = cache w \<and> environ w1 = environ w"
    using Pair by (auto simp: load_app_def Let_def split: if_splits option.splits)
  show ?thesis
  proof (cases f)
    case (Ret m)
    then have "names m = app_names" using Pair by (auto dest: load_app_names)
    from main_unbound [OF this, of x inp w1] l Ret Pair show ?thesis
      by (auto simp: app_script_def dest: calls_kickoffs)
  next
    case (Raise e)
    with l Pair show ?thesis by (auto simp: app_script_def)
  next
    case Stop
    with l Pair show ?thesis by (auto simp: app_script_def)
  qed
qed

lemma session_inv:
  "kickoffs (trace (session x inps w)) = kickoffs (trace w) \<and> cache (session x inps w) = cache w"
proof (induction inps arbitrary: w)
  case Nil
  show ?case by simp
next
  case (Cons inp inps)
  from app_script_trace [of x inp w] obtain es where
    "trace (snd (app_script x inp w)) = trace w @ es" "kickoffs es = []"
    "cache (snd (app_script x inp w)) = cache w" by blast
  with Cons [of "snd (app_script x inp w)"] show ?case by simp
qed

lemma strip_quantum: "strip (asc ''Quantum Computing in Healthcare'') = asc ''Quantum Computing in Healthcare''"
  by (simp add: strip_def asc_def isspace_def)

lemma app_script_quantum:
  "cache w = Map.empty \<Longrightarrow> environ w = demo_env \<Longrightarrow>
   app_script demo_ext (quantum_click now) w =
     (Ret (), emit [Call (CallSerperDevTool (SerperDevTool None)),
               UI (st_status ([129504] @ asc '' Generating content...'')),
               UI (st_write (asc ''1. Researching topic...'')),
               UI (st_write (asc ''2. Analyzing findings...'')),
               UI (st_write (asc ''3. Writing blog post...'')),
               UI (st_error (asc ''Error: '' @ exn_str (NameError ''LLM'')))] w)"
  by (simp add: app_script_def load_app_def demo_ext_def demo_env_def falsy_def os_getenv_def
       os_getenv_default_def Let_def main_def quantum_click_def st_button_def generate_disabled_def
       truthy_def strip_quantum run_blog_generation_unbound_miss main_progress_def)


lemma session_three_clicks:
  "session demo_ext three_clicks (init demo_env) =
     emit (concat (replicate 3
        [Call (CallSerperDevTool (SerperDevTool None)),
         UI (st_status ([129504] @ asc '' Generating content...'')),
         UI (st_write (asc ''1. Researching topic...'')),
         UI (st_write (asc ''2. Analyzing findings...'')),
         UI (st_write (asc ''3. Writing blog post...'')),
         UI (st_error (asc ''Error: '' @ exn_str (NameError ''LLM'')))])) (init demo_env)"
  by (simp add: three_clicks_def app_script_quantum init_def numeral_3_eq_3)

text \<open>
  What both apps hand to the runtime, when they get that far: the research task first,
  the writing task second with the research task as its only context, and the
  sequential process.
\<close>

lemma create_tasks_dependency:
  "create_tasks topic researcher writer w = ((research_task, writing_task), w') \<Longrightarrow>
     task_context research_task = [] \<and> task_context writing_task = [research_task] \<and>
     task_agent research_task = researcher \<and> task_agent writing_task = writer"
  by (auto simp: create_tasks_def Let_def)

lemma post_crew_dependency:
  "crew_process (post_crew topic t l) = sequential \<and>
   (\<exists>research_task writing_task.
      crew_tasks (post_crew topic t l) = [research_task, writing_task] \<and>
      task_context research_task = [] \<and> task_context writing_task = [research_task])"
  by (simp add: post_crew_def Let_def post_research_task_def post_writing_task_def)

text \<open>
  The decorator by itself does what the spec says of the cache, for every module: a hit
  within the window returns the stored result and leaves the world as it is, and a call
  that raises stores nothing.
\<close>

lemma cache_hit_skips_body:
  "cache w (topic, model_name) = Some (r, t0) \<Longrightarrow> now < t0 + ttl \<Longrightarrow>
     run_blog_generation x m now topic model_name w = (Inr r, w)"
  by (simp add: run_blog_generation_def)

lemma cache_unchanged_on_error:
  "run_blog_generation x m now topic model_name w = (Inl e, w') \<Longrightarrow> cache w' = cache w"
  unfolding run_blog_generation_def run_blog_generation_body_def
  by (auto simp: create_tasks_def Let_def split: option.splits prod.splits sum.splits if_splits
      dest!: create_agents_trace)

text \<open>
  C1. Claim: for every generate run with a given topic and model, the orchestrator
  executes the research task strictly before the writing task through the agent
  runtime, and the writing task receives exactly the research task's output. In the
  environment-credential app no task is ever executed: for every module with the names
  the app binds, every topic, model and world, the body of \<open>run_blog_generation\<close>
  raises \<open>NameError\<close> in \<open>create_agents\<close>, before the tasks and the crew are built, and
  leaves the world as it was; and no run of the script, whatever its inputs, hands a
  crew to \<open>kickoff\<close>.
\<close>

theorem run_blog_generation_never_reaches_runtime:
  "run_blog_generation_body x (m\<lparr>names := app_names\<rparr>) topic model_name w =
     (Inl (NameError ''LLM''), w) \<and>
   kickoffs (news w (snd (app_script x inp w))) = []"
proof
  show "run_blog_generation_body x (m\<lparr>names := app_names\<rparr>) topic model_name w =
     (Inl (NameError ''LLM''), w)"
    by (simp add: run_blog_generation_body_unbound)
  from app_script_trace [of x inp w]
  show "kickoffs (news w (snd (app_script x inp w))) = []"
    by auto
qed

theorem run_blog_generation_never_reaches_runtime_witness:
  "run_blog_generation_body demo_ext demo_module (asc ''Quantum Computing in Healthcare'') gemini
      (init demo_env) = (Inl (NameError ''LLM''), init demo_env) \<and>
   kickoffs (news (init demo_env) (snd (app_script demo_ext (quantum_click 0) (init demo_env)))) = [] \<and>
   shown (news (init demo_env) (snd (app_script demo_ext (quantum_click 0) (init demo_env)))) =
     [st_status ([129504] @ asc '' Generating content...''),
      st_write (asc ''1. Researching topic...''),
      st_write (asc ''2. Analyzing findings...''),
      st_write (asc ''3. Writing blog post...''),
      st_error (asc ''Error: '' @ exn_str (NameError ''LLM''))]"
  using run_blog_generation_never_reaches_runtime
    [of demo_ext demo_module "asc ''Quantum Computing in Healthcare''" gemini "init demo_env"
        "quantum_click 0"]
  by (simp add: app_script_quantum init_def demo_module_def)

text \<open>
  C5. Claim: two runs with the same (topic, model) within the one-hour window invoke
  the collaborator at most once, a run after the window invokes it again, and a miss
  populates the cache only after a successful run. In the cached app the collaborator
  is never invoked and the cache is never populated: in every session of a freshly
  started process, whatever the environment, the inputs and the times of the runs, no
  crew is handed to \<open>kickoff\<close> and the cache stays empty, because every miss ends in
  the \<open>NameError\<close> of \<open>create_agents\<close>. So a run after the window does not invoke the
  collaborator again.
\<close>

theorem session_never_invokes_collaborator:
  "kickoffs (trace (session x inps (init env))) = [] \<and>
   cache (session x inps (init env)) = Map.empty"
  using session_inv [of x inps "init env"] by (simp add: init_def)

theorem session_never_invokes_collaborator_witness:
  "kickoffs (trace (session demo_ext three_clicks (init demo_env))) = [] \<and>
   cache (session demo_ext three_clicks (init demo_env)) = Map.empty \<and>
   shown (trace (session demo_ext three_clicks (init demo_env))) =
     concat (replicate 3
       [st_status ([129504] @ asc '' Generating content...''),
        st_write (asc ''1. Researching topic...''),
        st_write (asc ''2. Analyzing findings...''),
        st_write (asc ''3. Writing blog post...''),
        st_error (asc ''Error: '' @ exn_str (NameError ''LLM''))])"
  using session_never_invokes_collaborator [of demo_ext three_clicks demo_env]
  by (simp add: session_three_clicks numeral_3_eq_3) (simp add: init_def)

section \<open>Blank topics\<close>

lemma generate_disabled_iff: "generate_disabled topic \<longleftrightarrow> (\<forall>c\<in>set topic. isspace c)"
  by (simp add: generate_disabled_def truthy_def strip_Nil_iff)

lemma main_disabled: "generate_disabled (in_topic inp) \<Longrightarrow> main x m inp w = w"
  by (simp add: main_def st_button_def)

lemma post_main_blank:
  "\<forall>c\<in>set (f_topic inp). isspace c \<Longrightarrow>
   post_main x inp w =
     (Ret (),
      emit (post_setup_messages
              (st_text_input (os_getenv_default w ''CLARIFAI_PAT'' []) (f_pat inp))
              (st_text_input (os_getenv_default w ''SERPER_API_KEY'' []) (f_key inp)) @
            (if st_button (post_generate_disabled (f_topic inp)
                  (st_text_input (os_getenv_default w ''CLARIFAI_PAT'' []) (f_pat inp))
                  (st_text_input (os_getenv_default w ''SERPER_API_KEY'' []) (f_key inp)))
                  (f_clicked inp)
             then [UI (st_warning (asc ''Please enter a valid topic''))] else [])) w)"
  by (simp add: post_main_def Let_def truthy_def strip_Nil_iff)

lemma calls_of_setup [simp]: "calls_of (post_setup_messages p k) = []"
  by (simp add: post_setup_messages_def)

lemma setenvs_setup [simp]: "setenvs (post_setup_messages p k) = []"
  by (simp add: post_setup_messages_def)

lemma blank_two_spaces: "c \<in> set (asc ''  '') \<Longrightarrow> isspace c"
  by (simp add: asc_def isspace_def)

text \<open>
  C3. Claim: for all empty or whitespace-only topics the generate button is disabled in
  both apps. The form app tests \<open>topic\<close>, not \<open>topic.strip()\<close>: for the topic of
  two spaces with both keys entered its button is enabled.
\<close>

theorem blank_topic_button_counterexample:
  "\<not> (\<forall>topic clarifai_pat serper_key.
        (\<forall>c\<in>set topic. isspace c) \<longrightarrow>
          generate_disabled topic \<and> post_generate_disabled topic clarifai_pat serper_key)"
proof
  assume "\<forall>topic clarifai_pat serper_key.
        (\<forall>c\<in>set topic. isspace c) \<longrightarrow>
          generate_disabled topic \<and> post_generate_disabled topic clarifai_pat serper_key"
  then have "(\<forall>c\<in>set (asc ''  ''). isspace c) \<longrightarrow>
      post_generate_disabled (asc ''  '') (asc ''pat-1'') (asc ''key-1'')"
    by blast
  then show False
    by (simp add: post_generate_disabled_def truthy_def asc_def isspace_def)
qed

text \<open>
  C3, as amended. For every empty or whitespace-only topic: the button of the
  environment-credential app is disabled, and a run of its \<open>main\<close> does nothing; the
  button of the form app is disabled for the empty topic; and a run of the form app's
  \<open>main\<close>, clicked or not, returns without calling the agent library and without
  writing to the environment, so in neither app is an orchestration started from such
  a topic.
\<close>

theorem blank_topic_starts_nothing:
  "(\<forall>c\<in>set topic. isspace c) \<longrightarrow>
     generate_disabled topic \<and>
     main x m (inp\<lparr>in_topic := topic\<rparr>) w = w \<and>
     post_generate_disabled [] clarifai_pat serper_key \<and>
     fst (post_main x' (finp\<lparr>f_topic := topic\<rparr>) v) = Ret () \<and>
     calls_of (news v (snd (post_main x' (finp\<lparr>f_topic := topic\<rparr>) v))) = [] \<and>
     setenvs (news v (snd (post_main x' (finp\<lparr>f_topic := topic\<rparr>) v))) = []"
proof
  assume b: "\<forall>c\<in>set topic. isspace c"
  then have d: "generate_disabled topic" by (simp add: generate_disabled_iff)
  have m: "main x m (inp\<lparr>in_topic := topic\<rparr>) w = w"
    using d by (simp add: main_disabled)
  have p: "post_generate_disabled [] clarifai_pat serper_key"
    by (simp add: post_generate_disabled_def truthy_def)
  from b have "\<forall>c\<in>set (f_topic (finp\<lparr>f_topic := topic\<rparr>)). isspace c" by simp
  note r = post_main_blank [OF this, of x' v]
  show "generate_disabled topic \<and>
     main x m (inp\<lparr>in_topic := topic\<rparr>) w = w \<and>
     post_generate_disabled [] clarifai_pat serper_key \<and>
     fst (post_main x' (finp\<lparr>f_topic := topic\<rparr>) v) = Ret () \<and>
     calls_of (news v (snd (post_main x' (finp\<lparr>f_topic := topic\<rparr>) v))) = [] \<and>
     setenvs (news v (snd (post_main x' (finp\<lparr>f_topic := topic\<rparr>) v))) = []"
    using d m p by (simp add: r)
qed

theorem blank_topic_starts_nothing_witness:
  "strip (asc ''  '') = [] \<and>
   generate_disabled (asc ''  '') \<and>
   main demo_ext demo_module ((quantum_click 0)\<lparr>in_topic := asc ''  ''\<rparr>) (init demo_env) =
     init demo_env \<and>
   post_generate_disabled [] (asc ''pat-1'') (asc ''key-1'') \<and>
   fst (post_main demo_ext blank_form (init Map.empty)) = Ret () \<and>
   calls_of (news (init Map.empty) (snd (post_main demo_ext blank_form (init Map.empty)))) = [] \<and>
   setenvs (news (init Map.empty) (snd (post_main demo_ext blank_form (init Map.empty)))) = []"
proof -
  have b: "\<forall>c\<in>set (asc ''  ''). isspace c"
    by (simp add: blank_two_spaces)
  have f: "blank_form\<lparr>f_topic := asc ''  ''\<rparr> = blank_form"
    by (simp add: blank_form_def)
  from b have s: "strip (asc ''  '') = []" by (simp add: strip_Nil_iff)
  from b blank_topic_starts_nothing
    [of "asc ''  ''" demo_ext demo_module "quantum_click 0" "init demo_env" "asc ''pat-1''"
        "asc ''key-1''" demo_ext blank_form "init Map.empty"]
  show ?thesis unfolding f using s by blast
qed

section \<open>The click handler of the form app\<close>

lemma setup_both: "p \<noteq> [] \<Longrightarrow> k \<noteq> [] \<Longrightarrow>
  post_setup_messages p k = [UI (st_success ([9989] @ asc '' All environment variables are set''))]"
  by (simp add: post_setup_messages_def truthy_def)

lemma post_generate_world:
  "post_generate x mn t p k w = (r, w') \<Longrightarrow>
     \<exists>es. trace w' = trace w @ es \<and> setenvs es = [] \<and> environ w' = environ w \<and> cache w' = cache w"
  by (auto dest: post_generate_trace)

lemma post_main_cases:
  assumes "p = st_text_input (os_getenv_default w ''CLARIFAI_PAT'' []) (f_pat inp)"
    and "k = st_text_input (os_getenv_default w ''SERPER_API_KEY'' []) (f_key inp)"
    and "w0 = emit (post_setup_messages p k) w"
  shows "post_main x inp w = (Ret (), w0) \<or>
    (\<exists>u. post_main x inp w = (Ret (), emit [UI u] w0)) \<or>
    (\<exists>e. f_clicked inp \<and> post_main x inp w = (Raise e, w0)) \<or>
    (\<exists>e. f_clicked inp \<and> post_main x inp w = (Raise e, environ_written ''CLARIFAI_PAT'' p w0)) \<or>
    (f_clicked inp \<and>
     post_main x inp w =
       (case post_generate x (f_model inp) (f_topic inp) p k
               (environ_written ''SERPER_API_KEY'' k (environ_written ''CLARIFAI_PAT'' p w0)) of
          (Ret result, w3) \<Rightarrow> (Ret (), emit (post_display (f_topic inp) result) w3)
        | (Raise e, w3) \<Rightarrow> (Ret (), emit (post_report x e) w3)
        | (Stop, w3) \<Rightarrow> (Stop, w3)))"
  using assms
  by (auto simp: post_main_def Let_def st_button_def split: sum.splits dest!: os_environ_set_Inr)

lemma post_main_click:
  assumes "f_clicked inp"
    and "strip (f_topic inp) \<noteq> []"
    and "clarifai_pat = st_text_input (os_getenv_default w ''CLARIFAI_PAT'' []) (f_pat inp)"
    and "serper_key = st_text_input (os_getenv_default w ''SERPER_API_KEY'' []) (f_key inp)"
    and "clarifai_pat \<noteq> []"
    and "serper_key \<noteq> []"
    and "environ_accepts clarifai_pat"
    and "environ_accepts serper_key"
  shows "post_main x inp w =
     (case post_generate x (f_model inp) (f_topic inp) clarifai_pat serper_key
             (environ_written ''SERPER_API_KEY'' serper_key
                (environ_written ''CLARIFAI_PAT'' clarifai_pat
                   (emit [UI (st_success ([9989] @ asc '' All environment variables are set''))] w))) of
        (Ret result, w2) \<Rightarrow> (Ret (), emit (post_display (f_topic inp) result) w2)
      | (Raise e, w2) \<Rightarrow> (Ret (), emit (post_report x e) w2)
      | (Stop, w2) \<Rightarrow> (Stop, w2))"
proof -
  have "f_topic inp \<noteq> []" using assms(2) by (auto simp: strip_def)
  then show ?thesis
    using assms
    by (simp add: post_main_def Let_def st_button_def post_generate_disabled_def truthy_def
        setup_both os_environ_set_accepts)
qed

lemma setenvs_display [simp]: "setenvs (post_display t r) = []"
  by (simp add: post_display_def)

lemma setenvs_report [simp]: "setenvs (post_report x e) = []"
  by (simp add: post_report_def)

lemma demo_form_facts:
  "f_clicked demo_form"
  "strip (f_topic demo_form) \<noteq> []"
  "asc ''pat-1'' = st_text_input (os_getenv_default (init Map.empty) ''CLARIFAI_PAT'' []) (f_pat demo_form)"
  "asc ''key-1'' = st_text_input (os_getenv_default (init Map.empty) ''SERPER_API_KEY'' []) (f_key demo_form)"
  "asc ''pat-1'' \<noteq> []"
  "asc ''key-1'' \<noteq> []"
  "environ_accepts (asc ''pat-1'')"
  "environ_accepts (asc ''key-1'')"
  by (simp_all add: demo_form_def st_text_input_def strip_demo accepts_demo)

lemma blank_form_facts:
  "f_clicked blank_form"
  "f_topic blank_form \<noteq> []"
  "\<forall>c\<in>set (f_topic blank_form). isspace c"
  "asc ''pat-1'' = st_text_input (os_getenv_default (init Map.empty) ''CLARIFAI_PAT'' []) (f_pat blank_form)"
  "asc ''key-1'' = st_text_input (os_getenv_default (init Map.empty) ''SERPER_API_KEY'' []) (f_key blank_form)"
  "asc ''pat-1'' \<noteq> []"
  "asc ''key-1'' \<noteq> []"
  by (simp_all add: blank_form_def st_text_input_def blank_two_spaces)

text \<open>
  C10. In the form app, for every topic that is non-empty but whitespace-only, with
  both keys non-empty (so that the generate button is enabled), a click shows the
  warning "Please enter a valid topic" and returns: the run adds to the page the
  success line of the setup panel and that warning and nothing else, no environment
  variable is written, the environment and the cache are unchanged, and no LLM, tool,
  agent, task or crew is constructed and no crew is run.
\<close>

theorem blank_topic_click_only_warns:
  assumes "f_clicked inp"
    and "f_topic inp \<noteq> []"
    and "\<forall>c\<in>set (f_topic inp). isspace c"
    and "clarifai_pat = st_text_input (os_getenv_default w ''CLARIFAI_PAT'' []) (f_pat inp)"
    and "serper_key = st_text_input (os_getenv_default w ''SERPER_API_KEY'' []) (f_key inp)"
    and "clarifai_pat \<noteq> []"
    and "serper_key \<noteq> []"
  shows "st_button (post_generate_disabled (f_topic inp) clarifai_pat serper_key) (f_clicked inp) \<and>
    post_main x inp w =
      (Ret (),
       emit [UI (st_success ([9989] @ asc '' All environment variables are set'')),
             UI (st_warning (asc ''Please enter a valid topic''))] w) \<and>
    environ (snd (post_main x inp w)) = environ w \<and>
    cache (snd (post_main x inp w)) = cache w \<and>
    calls_of (news w (snd (post_main x inp w))) = [] \<and>
    setenvs (news w (snd (post_main x inp w))) = []"
proof -
  have en: "st_button (post_generate_disabled (f_topic inp) clarifai_pat serper_key) (f_clicked inp)"
    using assms by (simp add: st_button_def post_generate_disabled_def truthy_def)
  have run: "post_main x inp w =
      (Ret (),
       emit [UI (st_success ([9989] @ asc '' All environment variables are set'')),
             UI (st_warning (asc ''Please enter a valid topic''))] w)"
    using post_main_blank [OF assms(3), of x w] en assms(4-7)
    by (simp add: setup_both)
  show ?thesis using en by (simp add: run)
qed

theorem blank_topic_click_only_warns_witness:
  "st_button (post_generate_disabled (asc ''  '') (asc ''pat-1'') (asc ''key-1'')) True \<and>
   post_main demo_ext blank_form (init Map.empty) =
     (Ret (),
      emit [UI (st_success ([9989] @ asc '' All environment variables are set'')),
            UI (st_warning (asc ''Please enter a valid topic''))] (init Map.empty)) \<and>
   environ (snd (post_main demo_ext blank_form (init Map.empty))) = Map.empty \<and>
   calls_of (news (init Map.empty) (snd (post_main demo_ext blank_form (init Map.empty)))) = [] \<and>
   setenvs (news (init Map.empty) (snd (post_main demo_ext blank_form (init Map.empty)))) = []"
  using blank_topic_click_only_warns [OF blank_form_facts, of demo_ext]
  by (simp add: blank_form_def init_def)

lemma post_main_environ:
  assumes "p = st_text_input (os_getenv_default w ''CLARIFAI_PAT'' []) (f_pat inp)"
    and "k = st_text_input (os_getenv_default w ''SERPER_API_KEY'' []) (f_key inp)"
  shows "environ (snd (post_main x inp w)) = environ w \<or>
    f_clicked inp \<and>
    (environ (snd (post_main x inp w)) = (environ w)(asc ''CLARIFAI_PAT'' \<mapsto> p) \<or>
     environ (snd (post_main x inp w)) =
       (environ w)(asc ''CLARIFAI_PAT'' \<mapsto> p, asc ''SERPER_API_KEY'' \<mapsto> k))"
proof -
  let ?w0 = "emit (post_setup_messages p k) w"
  let ?w2 = "environ_written ''SERPER_API_KEY'' k (environ_written ''CLARIFAI_PAT'' p ?w0)"
  obtain r w3 where g: "post_generate x (f_model inp) (f_topic inp) p k ?w2 = (r, w3)"
    by (cases "post_generate x (f_model inp) (f_topic inp) p k ?w2")
  from post_generate_world [OF g] have e: "environ w3 = environ ?w2" by blast
  from post_main_cases [OF assms refl, of x] show ?thesis
    using g e by (cases r) auto
qed

lemma post_main_environ_dom:
  assumes "k \<in> dom (environ w)"
  shows "k \<in> dom (environ (snd (post_main x inp w)))"
  using post_main_environ [OF refl refl, of x inp w] assms by auto

lemma post_session_environ_dom:
  "k \<in> dom (environ w) \<Longrightarrow> k \<in> dom (environ (post_session x inps w))"
  by (induction inps arbitrary: w) (simp_all add: post_main_environ_dom)

lemma post_main_no_click:
  "\<not> f_clicked inp \<Longrightarrow>
   post_main x inp w =
     (Ret (), emit (post_setup_messages
                (st_text_input (os_getenv_default w ''CLARIFAI_PAT'' []) (f_pat inp))
                (st_text_input (os_getenv_default w ''SERPER_API_KEY'' []) (f_key inp))) w)"
  by (simp add: post_main_def Let_def st_button_def)

lemma post_main_keeps:
  assumes "\<not> f_clicked inp \<or>
      environ w (asc ''CLARIFAI_PAT'') = Some P \<and> environ w (asc ''SERPER_API_KEY'') = Some K \<and>
      f_pat inp \<in> {None, Some P} \<and> f_key inp \<in> {None, Some K}"
  shows "environ (snd (post_main x inp w)) = environ w"
proof (cases "f_clicked inp")
  case False
  then show ?thesis by (simp add: post_main_no_click)
next
  case True
  with assms have a: "environ w (asc ''CLARIFAI_PAT'') = Some P"
    "environ w (asc ''SERPER_API_KEY'') = Some K"
    "f_pat inp \<in> {None, Some P}" "f_key inp \<in> {None, Some K}"
    by auto
  have p: "st_text_input (os_getenv_default w ''CLARIFAI_PAT'' []) (f_pat inp) = P"
    using a by (auto simp: st_text_input_def os_getenv_default_def)
  have k: "st_text_input (os_getenv_default w ''SERPER_API_KEY'' []) (f_key inp) = K"
    using a by (auto simp: st_text_input_def os_getenv_default_def)
  have 1: "(environ w)(asc ''CLARIFAI_PAT'' \<mapsto> P) = environ w"
    using a(1) by (rule map_upd_triv)
  have 2: "(environ w)(asc ''SERPER_API_KEY'' \<mapsto> K) = environ w"
    using a(2) by (rule map_upd_triv)
  from post_main_environ [OF p [symmetric] k [symmetric], of x] show ?thesis
    by (auto simp: 1 2)
qed

lemma post_session_keeps:
  assumes "environ w (asc ''CLARIFAI_PAT'') = Some P"
    and "environ w (asc ''SERPER_API_KEY'') = Some K"
    and "\<forall>i\<in>set later. \<not> f_clicked i \<or> f_pat i \<in> {None, Some P} \<and> f_key i \<in> {None, Some K}"
  shows "environ (post_session x later w) = environ w"
  using assms
proof (induction later arbitrary: w)
  case Nil
  show ?case by simp
next
  case (Cons i later)
  have "\<not> f_clicked i \<or>
      environ w (asc ''CLARIFAI_PAT'') = Some P \<and> environ w (asc ''SERPER_API_KEY'') = Some K \<and>
      f_pat i \<in> {None, Some P} \<and> f_key i \<in> {None, Some K}"
    using Cons.prems by auto
  then have e: "environ (snd (post_main x i w)) = environ w"
    by (rule post_main_keeps)
  have "environ (post_session x later (snd (post_main x i w))) = environ (snd (post_main x i w))"
    using Cons.prems e by (intro Cons.IH) auto
  with e show ?case by simp
qed

lemma os_environ_set_nul:
  "os_environ_set x k [107, 0, 49] w = Inl (Exn (asc ''ValueError'') (asc ''embedded null byte''))"
  by (simp add: os_environ_set_def lone_surrogate_def)

lemma post_main_nul_key:
  "post_main demo_ext nul_form (init Map.empty) =
     (Raise (Exn (asc ''ValueError'') (asc ''embedded null byte'')),
      \<lparr>environ = [asc ''CLARIFAI_PAT'' \<mapsto> asc ''pat-1''], cache = Map.empty,
       trace = [UI (st_success ([9989] @ asc '' All environment variables are set'')),
                SetEnv (asc ''CLARIFAI_PAT'') (asc ''pat-1'')]\<rparr>)"
  by (simp add: post_main_def nul_form_def init_def Let_def st_text_input_def st_button_def
      post_generate_disabled_def truthy_def strip_demo post_setup_messages_def emit_def
      os_environ_set_accepts accepts_demo environ_written_def os_environ_set_nul)

text \<open>
  C9. Claim: in the form app, a click with a non-whitespace topic and both keys
  supplied writes exactly the two entered values into \<open>CLARIFAI_PAT\<close> and
  \<open>SERPER_API_KEY\<close>. \<open>os.environ\<close> does not take every text: with the search key
  \<open>k\<close>, NUL, \<open>1\<close> the second assignment raises \<open>ValueError\<close>, outside the \<open>try\<close>, and
  the run has written \<open>CLARIFAI_PAT\<close> alone.
\<close>

theorem nul_key_counterexample:
  "\<not> (\<forall>x inp w.
        f_clicked inp \<and> strip (f_topic inp) \<noteq> [] \<and>
        st_text_input (os_getenv_default w ''CLARIFAI_PAT'' []) (f_pat inp) \<noteq> [] \<and>
        st_text_input (os_getenv_default w ''SERPER_API_KEY'' []) (f_key inp) \<noteq> [] \<longrightarrow>
        setenvs (news w (snd (post_main x inp w))) =
          [(asc ''CLARIFAI_PAT'',
            st_text_input (os_getenv_default w ''CLARIFAI_PAT'' []) (f_pat inp)),
           (asc ''SERPER_API_KEY'',
            st_text_input (os_getenv_default w ''SERPER_API_KEY'' []) (f_key inp))])"
proof
  assume "\<forall>x inp w.
        f_clicked inp \<and> strip (f_topic inp) \<noteq> [] \<and>
        st_text_input (os_getenv_default w ''CLARIFAI_PAT'' []) (f_pat inp) \<noteq> [] \<and>
        st_text_input (os_getenv_default w ''SERPER_API_KEY'' []) (f_key inp) \<noteq> [] \<longrightarrow>
        setenvs (news w (snd (post_main x inp w))) =
          [(asc ''CLARIFAI_PAT'',
            st_text_input (os_getenv_default w ''CLARIFAI_PAT'' []) (f_pat inp)),
           (asc ''SERPER_API_KEY'',
            st_text_input (os_getenv_default w ''SERPER_API_KEY'' []) (f_key inp))]"
  then have "f_clicked nul_form \<and> strip (f_topic nul_form) \<noteq> [] \<and>
        st_text_input (os_getenv_default (init Map.empty) ''CLARIFAI_PAT'' []) (f_pat nul_form) \<noteq> [] \<and>
        st_text_input (os_getenv_default (init Map.empty) ''SERPER_API_KEY'' []) (f_key nul_form) \<noteq> [] \<longrightarrow>
        setenvs (news (init Map.empty) (snd (post_main demo_ext nul_form (init Map.empty)))) =
          [(asc ''CLARIFAI_PAT'',
            st_text_input (os_getenv_default (init Map.empty) ''CLARIFAI_PAT'' []) (f_pat nul_form)),
           (asc ''SERPER_API_KEY'',
            st_text_input (os_getenv_default (init Map.empty) ''SERPER_API_KEY'' []) (f_key nul_form))]"
    by blast
  then show False
    unfolding post_main_nul_key
    by (simp add: nul_form_def st_text_input_def strip_demo news_def init_def)
qed

text \<open>
  C9, as amended. In the form app, a click with a topic that is not whitespace-only
  and both keys non-empty texts that \<open>os.environ\<close> accepts (no NUL, no surrogate it
  cannot encode) writes exactly two environment variables, \<open>CLARIFAI_PAT\<close> and
  \<open>SERPER_API_KEY\<close>, with the texts of the two fields: the environment after the run
  is the one before with these two bindings, however the run itself ends; they are
  the only environment writes of the run, and the cache is untouched. For the rest of
  the session both variables stay set, and they keep these very values through every
  later run that is not a click or that shows the same two texts in its fields (left
  untouched, or entered again). A run without a click writes no environment variable
  at all, leaves environment and cache as they were and calls nothing of the agent
  library. The model has no other store, as the code has none: nothing is persisted.
\<close>

theorem click_writes_two_variables:
  assumes "f_clicked inp"
    and "strip (f_topic inp) \<noteq> []"
    and "clarifai_pat = st_text_input (os_getenv_default w ''CLARIFAI_PAT'' []) (f_pat inp)"
    and "serper_key = st_text_input (os_getenv_default w ''SERPER_API_KEY'' []) (f_key inp)"
    and "clarifai_pat \<noteq> []"
    and "serper_key \<noteq> []"
    and "environ_accepts clarifai_pat"
    and "environ_accepts serper_key"
  shows "environ (snd (post_main x inp w)) =
      (environ w)(asc ''CLARIFAI_PAT'' \<mapsto> clarifai_pat, asc ''SERPER_API_KEY'' \<mapsto> serper_key) \<and>
    setenvs (news w (snd (post_main x inp w))) =
      [(asc ''CLARIFAI_PAT'', clarifai_pat), (asc ''SERPER_API_KEY'', serper_key)] \<and>
    cache (snd (post_main x inp w)) = cache w \<and>
    {asc ''CLARIFAI_PAT'', asc ''SERPER_API_KEY''}
      \<subseteq> dom (environ (post_session x' later (snd (post_main x inp w)))) \<and>
    ((\<forall>i\<in>set same.
        \<not> f_clicked i \<or>
        f_pat i \<in> {None, Some clarifai_pat} \<and> f_key i \<in> {None, Some serper_key}) \<longrightarrow>
     environ (post_session x' same (snd (post_main x inp w))) =
       (environ w)(asc ''CLARIFAI_PAT'' \<mapsto> clarifai_pat,
                   asc ''SERPER_API_KEY'' \<mapsto> serper_key)) \<and>
    (\<not> f_clicked idle \<longrightarrow>
       environ (snd (post_main x' idle v)) = environ v \<and>
       cache (snd (post_main x' idle v)) = cache v \<and>
       setenvs (news v (snd (post_main x' idle v))) = [] \<and>
       calls_of (news v (snd (post_main x' idle v))) = [])"
proof -
  let ?w1 = "environ_written ''SERPER_API_KEY'' serper_key
                (environ_written ''CLARIFAI_PAT'' clarifai_pat
                   (emit [UI (st_success ([9989] @ asc '' All environment variables are set''))] w))"
  let ?E = "(environ w)(asc ''CLARIFAI_PAT'' \<mapsto> clarifai_pat,
                        asc ''SERPER_API_KEY'' \<mapsto> serper_key)"
  obtain r w2 where g: "post_generate x (f_model inp) (f_topic inp) clarifai_pat serper_key ?w1 = (r, w2)"
    by (cases "post_generate x (f_model inp) (f_topic inp) clarifai_pat serper_key ?w1")
  from post_generate_world [OF g] obtain es where
    es: "trace w2 = trace ?w1 @ es" "setenvs es = []" "environ w2 = environ ?w1" "cache w2 = cache ?w1"
    by blast
  have w1: "environ ?w1 = ?E"
      "cache ?w1 = cache w"
      "trace ?w1 = trace w @ [UI (st_success ([9989] @ asc '' All environment variables are set'')),
          SetEnv (asc ''CLARIFAI_PAT'') clarifai_pat, SetEnv (asc ''SERPER_API_KEY'') serper_key]"
    by simp_all
  have now: "environ (snd (post_main x inp w)) = ?E \<and>
    setenvs (news w (snd (post_main x inp w))) =
      [(asc ''CLARIFAI_PAT'', clarifai_pat), (asc ''SERPER_API_KEY'', serper_key)] \<and>
    cache (snd (post_main x inp w)) = cache w"
    unfolding post_main_click [OF assms, of x] g
    using es w1 by (cases r) (simp_all add: news_def)
  then have env: "environ (snd (post_main x inp w)) = ?E" by blast
  then have set: "environ (snd (post_main x inp w)) (asc ''CLARIFAI_PAT'') = Some clarifai_pat"
    "environ (snd (post_main x inp w)) (asc ''SERPER_API_KEY'') = Some serper_key"
    by simp_all
  then have "asc ''CLARIFAI_PAT'' \<in> dom (environ (snd (post_main x inp w)))"
    "asc ''SERPER_API_KEY'' \<in> dom (environ (snd (post_main x inp w)))"
    by auto
  then have d: "{asc ''CLARIFAI_PAT'', asc ''SERPER_API_KEY''}
      \<subseteq> dom (environ (post_session x' later (snd (post_main x inp w))))"
    by (simp add: post_session_environ_dom)
  have k: "environ (post_session x' same (snd (post_main x inp w))) = ?E"
    if "\<forall>i\<in>set same.
        \<not> f_clicked i \<or>
        f_pat i \<in> {None, Some clarifai_pat} \<and> f_key i \<in> {None, Some serper_key}"
    using post_session_keeps [OF set that, of x'] env by simp
  have i: "environ (snd (post_main x' idle v)) = environ v \<and>
       cache (snd (post_main x' idle v)) = cache v \<and>
       setenvs (news v (snd (post_main x' idle v))) = [] \<and>
       calls_of (news v (snd (post_main x' idle v))) = []"
    if "\<not> f_clicked idle"
    using that by (simp add: post_main_no_click)
  from now d k i show ?thesis by blast
qed

theorem click_writes_two_variables_witness:
  "environ (snd (post_main demo_ext demo_form (init Map.empty))) =
     [asc ''CLARIFAI_PAT'' \<mapsto> asc ''pat-1'', asc ''SERPER_API_KEY'' \<mapsto> asc ''key-1''] \<and>
   setenvs (news (init Map.empty) (snd (post_main demo_ext demo_form (init Map.empty)))) =
     [(asc ''CLARIFAI_PAT'', asc ''pat-1''), (asc ''SERPER_API_KEY'', asc ''key-1'')] \<and>
   cache (snd (post_main demo_ext demo_form (init Map.empty))) = Map.empty \<and>
   asc ''CLARIFAI_PAT''
     \<in> dom (environ (post_session demo_ext [blank_form]
                (snd (post_main demo_ext demo_form (init Map.empty))))) \<and>
   environ (post_session demo_ext [idle_form, demo_form]
              (snd (post_main demo_ext demo_form (init Map.empty)))) =
     [asc ''CLARIFAI_PAT'' \<mapsto> asc ''pat-1'', asc ''SERPER_API_KEY'' \<mapsto> asc ''key-1''] \<and>
   environ (snd (post_main demo_ext idle_form (init demo_env))) = demo_env"
proof -
  note t = click_writes_two_variables
    [OF demo_form_facts, where x = demo_ext and x' = demo_ext and later = "[blank_form]"
       and same = "[idle_form, demo_form]" and idle = idle_form and v = "init demo_env"]
  have s: "\<forall>i\<in>set [idle_form, demo_form].
      \<not> f_clicked i \<or>
      f_pat i \<in> {None, Some (asc ''pat-1'')} \<and> f_key i \<in> {None, Some (asc ''key-1'')}"
    by (simp add: idle_form_def demo_form_def)
  have c: "\<not> f_clicked idle_form" by (simp add: idle_form_def)
  from t s c show ?thesis by (simp add: init_def)
qed

section \<open>Failures of the collaborators\<close>

lemma post_generate_llm_raises:
  "LLM_raises x (LLM (asc ''clarifai/'' @ mn) p None) = Some e \<Longrightarrow>
   post_generate x mn t p k w =
     (Stop, emit [UI (st_status ([129504] @ asc '' Generating content...'')),
                  UI (st_write (asc ''1. Initializing LLM...'')),
                  Call (CallLLM (LLM (asc ''clarifai/'' @ mn) p None)),
                  UI (st_error (asc ''LLM initialization failed: '' @ exn_str e))] w)"
  by (simp add: post_generate_def Let_def)

lemma post_generate_search_raises:
  "LLM_raises x (LLM (asc ''clarifai/'' @ mn) p None) = None \<Longrightarrow>
   SerperDevTool_raises x (SerperDevTool (Some k)) = Some e \<Longrightarrow>
   post_generate x mn t p k w =
     (Stop, emit [UI (st_status ([129504] @ asc '' Generating content...'')),
                  UI (st_write (asc ''1. Initializing LLM...'')),
                  Call (CallLLM (LLM (asc ''clarifai/'' @ mn) p None)),
                  UI (st_write ([9989] @ asc '' LLM initialized'')),
                  UI (st_write (asc ''2. Setting up search tool...'')),
                  Call (CallSerperDevTool (SerperDevTool (Some k))),
                  UI (st_error (asc ''Search tool initialization failed: '' @ exn_str e))] w)"
  by (simp add: post_generate_def Let_def)

lemma post_steps_views [simp]:
  "kickoffs (post_steps mn t p k) =
     [post_crew t (SerperDevTool (Some k)) (LLM (asc ''clarifai/'' @ mn) p None)]"
  "result_views (post_steps mn t p k) = []"
  "setenvs (post_steps mn t p k) = []"
  by (simp_all add: post_steps_def Let_def)

lemma post_generate_kickoff:
  "LLM_raises x (LLM (asc ''clarifai/'' @ mn) p None) = None \<Longrightarrow>
   SerperDevTool_raises x (SerperDevTool (Some k)) = None \<Longrightarrow>
   post_generate x mn t p k w =
     (case kickoff x (post_crew t (SerperDevTool (Some k)) (LLM (asc ''clarifai/'' @ mn) p None)) of
        Inl e \<Rightarrow> (Raise e, emit (post_steps mn t p k) w)
      | Inr result \<Rightarrow>
          (Ret result,
           emit (post_steps mn t p k @
                 [UI (status_update ([9989] @ asc '' Blog generated successfully!''))]) w))"
  by (simp add: post_generate_def post_crew_def post_steps_def Let_def split: sum.splits)

lemma result_views_report [simp]: "result_views (post_report x e) = []"
  by (simp add: post_report_def)

lemma kickoffs_report [simp]: "kickoffs (post_report x e) = []"
  by (simp add: post_report_def)

lemma main_error:
  "in_clicked inp \<Longrightarrow> \<not> generate_disabled (in_topic inp) \<Longrightarrow>
   run_blog_generation x m (in_now inp) (in_topic inp) (in_model inp) (emit main_progress w) =
     (Inl e, w') \<Longrightarrow>
   main x m inp w = emit [UI (st_error (asc ''Error: '' @ exn_str e))] w' \<and>
   result_views (news w (main x m inp w)) = [] \<and>
   length (kickoffs (news w (main x m inp w))) \<le> 1"
  by (auto simp: main_def st_button_def Let_def main_progress_def news_def
      dest!: run_blog_generation_trace shown_result_views)

text \<open>
  C6. For every run in which a collaborator raises an error \<open>e\<close>, the page shows the
  message of that very error and nothing of a result, and the collaborator is not
  called again. In the form app, on a click with a non-blank topic and both keys
  (texts that \<open>os.environ\<close> accepts, so that the run reaches the collaborators): when
  \<open>LLM(...)\<close> or \<open>SerperDevTool(...)\<close> raises, the last thing written is the error line
  with \<open>str(e)\<close>, the script stops, and the only library calls of the run are the
  constructor calls up to the failing one, each made once; when \<open>crew.kickoff()\<close> raises,
  the run ends with the error report carrying \<open>str(e)\<close>, and the crew was handed to
  \<open>kickoff\<close> exactly once. In the other app, whenever \<open>run_blog_generation\<close> raises
  \<open>e\<close>, \<open>main\<close> ends by writing "Error: " followed by \<open>str(e)\<close>, with at most one call
  of \<open>kickoff\<close>. In every case no \<open>st.markdown\<close> and no download button is written.
\<close>

theorem collaborator_error_is_shown:
  assumes "f_clicked inp"
    and "strip (f_topic inp) \<noteq> []"
    and "clarifai_pat = st_text_input (os_getenv_default w ''CLARIFAI_PAT'' []) (f_pat inp)"
    and "serper_key = st_text_input (os_getenv_default w ''SERPER_API_KEY'' []) (f_key inp)"
    and "clarifai_pat \<noteq> []"
    and "serper_key \<noteq> []"
    and "environ_accepts clarifai_pat"
    and "environ_accepts serper_key"
    and "l = LLM (asc ''clarifai/'' @ f_model inp) clarifai_pat None"
    and "t = SerperDevTool (Some serper_key)"
    and "N = news w (snd (post_main x inp w))"
  shows
   "(LLM_raises x l = Some e \<longrightarrow>
       fst (post_main x inp w) = Stop \<and>
       last N = UI (st_error (asc ''LLM initialization failed: '' @ exn_str e)) \<and>
       result_views N = [] \<and> calls_of N = [CallLLM l]) \<and>
    (LLM_raises x l = None \<and> SerperDevTool_raises x t = Some e \<longrightarrow>
       fst (post_main x inp w) = Stop \<and>
       last N = UI (st_error (asc ''Search tool initialization failed: '' @ exn_str e)) \<and>
       result_views N = [] \<and> calls_of N = [CallLLM l, CallSerperDevTool t]) \<and>
    (LLM_raises x l = None \<and> SerperDevTool_raises x t = None \<and>
     kickoff x (post_crew (f_topic inp) t l) = Inl e \<longrightarrow>
       fst (post_main x inp w) = Ret () \<and>
       (\<exists>es. N = es @ post_report x e) \<and>
       st_error (asc ''Error occurred: '' @ exn_str e) \<in> set (shown N) \<and>
       result_views N = [] \<and> kickoffs N = [post_crew (f_topic inp) t l]) \<and>
    (in_clicked ainp \<and> \<not> generate_disabled (in_topic ainp) \<and>
     run_blog_generation x' m (in_now ainp) (in_topic ainp) (in_model ainp)
       (emit main_progress v) = (Inl e', v') \<longrightarrow>
       main x' m ainp v = emit [UI (st_error (asc ''Error: '' @ exn_str e'))] v' \<and>
       result_views (news v (main x' m ainp v)) = [] \<and>
       length (kickoffs (news v (main x' m ainp v))) \<le> 1)"
proof (intro conjI impI)
  note pm = post_main_click [OF assms(1-8), of x]
  show "fst (post_main x inp w) = Stop" if "LLM_raises x l = Some e"
    using that assms(9) by (simp add: pm post_generate_llm_raises)
  show "last N = UI (st_error (asc ''LLM initialization failed: '' @ exn_str e))"
    if "LLM_raises x l = Some e"
    using that assms(9,11) by (simp add: pm post_generate_llm_raises environ_written_def news_def)
  show "result_views N = []" if "LLM_raises x l = Some e"
    using that assms(9,11) by (simp add: pm post_generate_llm_raises environ_written_def news_def)
  show "calls_of N = [CallLLM l]" if "LLM_raises x l = Some e"
    using that assms(9,11) by (simp add: pm post_generate_llm_raises environ_written_def news_def)
next
  note pm = post_main_click [OF assms(1-8), of x]
  assume h: "LLM_raises x l = None \<and> SerperDevTool_raises x t = Some e"
  then have g: "post_generate x (f_model inp) (f_topic inp) clarifai_pat serper_key =
      (\<lambda>w. (Stop, emit [UI (st_status ([129504] @ asc '' Generating content...'')),
                  UI (st_write (asc ''1. Initializing LLM...'')),
                  Call (CallLLM l),
                  UI (st_write ([9989] @ asc '' LLM initialized'')),
                  UI (st_write (asc ''2. Setting up search tool...'')),
                  Call (CallSerperDevTool t),
                  UI (st_error (asc ''Search tool initialization failed: '' @ exn_str e))] w))"
    using assms(9,10) by (auto simp: post_generate_search_raises)
  show "fst (post_main x inp w) = Stop" by (simp add: pm g)
  show "last N = UI (st_error (asc ''Search tool initialization failed: '' @ exn_str e))"
    using assms(11) by (simp add: pm g environ_written_def news_def)
  show "result_views N = []"
    using assms(11) by (simp add: pm g environ_written_def news_def)
  show "calls_of N = [CallLLM l, CallSerperDevTool t]"
    using assms(11) by (simp add: pm g environ_written_def news_def)
next
  note pm = post_main_click [OF assms(1-8), of x]
  assume h: "LLM_raises x l = None \<and> SerperDevTool_raises x t = None \<and>
     kickoff x (post_crew (f_topic inp) t l) = Inl e"
  then have g: "post_generate x (f_model inp) (f_topic inp) clarifai_pat serper_key =
      (\<lambda>w. (Raise e, emit (post_steps (f_model inp) (f_topic inp) clarifai_pat serper_key) w))"
    using assms(9,10) by (auto simp: post_generate_kickoff)
  have n: "N = [UI (st_success ([9989] @ asc '' All environment variables are set'')),
        SetEnv (asc ''CLARIFAI_PAT'') clarifai_pat, SetEnv (asc ''SERPER_API_KEY'') serper_key] @
        post_steps (f_model inp) (f_topic inp) clarifai_pat serper_key @ post_report x e"
    using assms(11) by (simp add: pm g environ_written_def news_def)
  show "fst (post_main x inp w) = Ret ()" by (simp add: pm g)
  show "\<exists>es. N = es @ post_report x e"
    unfolding n by (metis append.assoc)
  show "st_error (asc ''Error occurred: '' @ exn_str e) \<in> set (shown N)"
    unfolding n by (simp add: post_report_def)
  show "result_views N = []" unfolding n by simp
  show "kickoffs N = [post_crew (f_topic inp) t l]"
    unfolding n using assms(9,10) by simp
next
  assume "in_clicked ainp \<and> \<not> generate_disabled (in_topic ainp) \<and>
     run_blog_generation x' m (in_now ainp) (in_topic ainp) (in_model ainp)
       (emit main_progress v) = (Inl e', v')"
  then have a: "main x' m ainp v = emit [UI (st_error (asc ''Error: '' @ exn_str e'))] v' \<and>
   result_views (news v (main x' m ainp v)) = [] \<and>
   length (kickoffs (news v (main x' m ainp v))) \<le> 1"
    using main_error [of ainp x' m v e' v'] by blast
  from a show "main x' m ainp v = emit [UI (st_error (asc ''Error: '' @ exn_str e'))] v'" by blast
  from a show "result_views (news v (main x' m ainp v)) = []" by blast
  from a show "length (kickoffs (news v (main x' m ainp v))) \<le> 1" by blast
qed

theorem collaborator_error_is_shown_witness:
  "fst (post_main llm_failing_ext demo_form (init Map.empty)) = Stop \<and>
   last (news (init Map.empty) (snd (post_main llm_failing_ext demo_form (init Map.empty)))) =
     UI (st_error (asc ''LLM initialization failed: '' @ asc ''invalid token'')) \<and>
   fst (post_main search_failing_ext demo_form (init Map.empty)) = Stop \<and>
   last (news (init Map.empty) (snd (post_main search_failing_ext demo_form (init Map.empty)))) =
     UI (st_error (asc ''Search tool initialization failed: '' @ asc ''invalid token'')) \<and>
   fst (post_main failing_ext demo_form (init Map.empty)) = Ret () \<and>
   st_error (asc ''Error occurred: '' @ asc ''search timed out'')
     \<in> set (shown (news (init Map.empty) (snd (post_main failing_ext demo_form (init Map.empty))))) \<and>
   result_views (news (init Map.empty) (snd (post_main failing_ext demo_form (init Map.empty)))) = [] \<and>
   kickoffs (news (init Map.empty) (snd (post_main failing_ext demo_form (init Map.empty)))) =
     [post_crew (asc ''My Topic!!'') (SerperDevTool (Some (asc ''key-1'')))
        (LLM (asc ''clarifai/'' @ llama) (asc ''pat-1'') None)] \<and>
   main demo_ext demo_module (quantum_click 0) (init demo_env) =
     emit [UI (st_error (asc ''Error: '' @ exn_str (NameError ''LLM'')))]
       (emit main_progress (init demo_env))"
proof -
  have a: "in_clicked (quantum_click 0) \<and> \<not> generate_disabled (in_topic (quantum_click 0)) \<and>
     run_blog_generation demo_ext demo_module (in_now (quantum_click 0))
       (in_topic (quantum_click 0)) (in_model (quantum_click 0))
       (emit main_progress (init demo_env)) =
     (Inl (NameError ''LLM''), emit main_progress (init demo_env))"
    by (simp add: quantum_click_def generate_disabled_def truthy_def strip_quantum
        run_blog_generation_unbound_miss demo_module_def init_def emit_def)
  note L = collaborator_error_is_shown [OF demo_form_facts refl refl refl,
      where x = llm_failing_ext and e = denied_error and x' = demo_ext and m = demo_module
        and ainp = "quantum_click 0" and v = "init demo_env" and e' = "NameError ''LLM''"
        and v' = "emit main_progress (init demo_env)"]
  note S = collaborator_error_is_shown [OF demo_form_facts refl refl refl,
      where x = search_failing_ext and e = denied_error and x' = demo_ext and m = demo_module
        and ainp = "quantum_click 0" and v = "init demo_env" and e' = "NameError ''LLM''"
        and v' = "emit main_progress (init demo_env)"]
  note K = collaborator_error_is_shown [OF demo_form_facts refl refl refl,
      where x = failing_ext and e = timeout_error and x' = demo_ext and m = demo_module
        and ainp = "quantum_click 0" and v = "init demo_env" and e' = "NameError ''LLM''"
        and v' = "emit main_progress (init demo_env)"]
  have l: "LLM_raises llm_failing_ext (LLM (asc ''clarifai/'' @ f_model demo_form) (asc ''pat-1'') None) =
      Some denied_error"
    by (simp add: llm_failing_ext_def demo_ext_def)
  have s: "LLM_raises search_failing_ext (LLM (asc ''clarifai/'' @ f_model demo_form) (asc ''pat-1'') None) = None \<and>
      SerperDevTool_raises search_failing_ext (SerperDevTool (Some (asc ''key-1''))) = Some denied_error"
    by (simp add: search_failing_ext_def demo_ext_def)
  have k: "LLM_raises failing_ext (LLM (asc ''clarifai/'' @ f_model demo_form) (asc ''pat-1'') None) = None \<and>
      SerperDevTool_raises failing_ext (SerperDevTool (Some (asc ''key-1''))) = None \<and>
      kickoff failing_ext (post_crew (f_topic demo_form) (SerperDevTool (Some (asc ''key-1'')))
         (LLM (asc ''clarifai/'' @ f_model demo_form) (asc ''pat-1'') None)) = Inl timeout_error"
    by (simp add: failing_ext_def demo_ext_def)
  from L l have 1: "fst (post_main llm_failing_ext demo_form (init Map.empty)) = Stop \<and>
   last (news (init Map.empty) (snd (post_main llm_failing_ext demo_form (init Map.empty)))) =
     UI (st_error (asc ''LLM initialization failed: '' @ asc ''invalid token''))"
    by (simp add: denied_error_def)
  from S s have 2: "fst (post_main search_failing_ext demo_form (init Map.empty)) = Stop \<and>
   last (news (init Map.empty) (snd (post_main search_failing_ext demo_form (init Map.empty)))) =
     UI (st_error (asc ''Search tool initialization failed: '' @ asc ''invalid token''))"
    by (simp add: denied_error_def)
  from K k have 3: "fst (post_main failing_ext demo_form (init Map.empty)) = Ret () \<and>
   st_error (asc ''Error occurred: '' @ asc ''search timed out'')
     \<in> set (shown (news (init Map.empty) (snd (post_main failing_ext demo_form (init Map.empty))))) \<and>
   result_views (news (init Map.empty) (snd (post_main failing_ext demo_form (init Map.empty)))) = [] \<and>
   kickoffs (news (init Map.empty) (snd (post_main failing_ext demo_form (init Map.empty)))) =
     [post_crew (asc ''My Topic!!'') (SerperDevTool (Some (asc ''key-1'')))
        (LLM (asc ''clarifai/'' @ llama) (asc ''pat-1'') None)]"
    by (simp add: timeout_error_def demo_form_def)
  from K a have 4: "main demo_ext demo_module (quantum_click 0) (init demo_env) =
     emit [UI (st_error (asc ''Error: '' @ exn_str (NameError ''LLM'')))]
       (emit main_progress (init demo_env))"
    by blast
  from 1 2 3 4 show ?thesis by blast
qed

section \<open>The credential check at startup\<close>

lemma falsy_iff: "falsy v \<longleftrightarrow> v = None \<or> v = Some []"
  by (simp add: falsy_def split: option.splits)

text \<open>
  C4. Claim: when \<open>CLARIFAI_PAT\<close> or \<open>SERPER_API_KEY\<close> is absent the app halts with an
  error naming the missing secret, and when both are present startup proceeds. The
  check is \<open>if not CLARIFAI_PAT\<close>, which also holds for the empty string: with
  \<open>CLARIFAI_PAT\<close> set to the empty string and \<open>SERPER_API_KEY\<close> set, both are present
  and the app halts.
\<close>

theorem present_but_empty_counterexample:
  "\<not> (\<forall>x w. os_getenv w ''CLARIFAI_PAT'' \<noteq> None \<and> os_getenv w ''SERPER_API_KEY'' \<noteq> None \<longrightarrow>
          fst (load_app x w) \<noteq> Stop)"
proof
  assume "\<forall>x w. os_getenv w ''CLARIFAI_PAT'' \<noteq> None \<and> os_getenv w ''SERPER_API_KEY'' \<noteq> None \<longrightarrow>
          fst (load_app x w) \<noteq> Stop"
  then have "os_getenv (init empty_pat_env) ''CLARIFAI_PAT'' \<noteq> None \<and>
      os_getenv (init empty_pat_env) ''SERPER_API_KEY'' \<noteq> None \<longrightarrow>
          fst (load_app demo_ext (init empty_pat_env)) \<noteq> Stop"
    by blast
  then show False
    by (simp add: os_getenv_def init_def empty_pat_env_def load_app_def falsy_def)
qed

text \<open>
  C4, as amended. When \<open>CLARIFAI_PAT\<close> is absent or empty, the script halts having
  written only the error that names it; when it is set and non-empty and
  \<open>SERPER_API_KEY\<close> is absent or empty, the script halts having written only the error
  that names \<open>SERPER_API_KEY\<close>; in both cases nothing of the agent library has been
  called. When both are set and non-empty the script does not halt: it goes on to build
  the search tool and, once that is built, runs \<open>main\<close> with the two values read.
\<close>

theorem startup_credential_check:
  "(os_getenv w ''CLARIFAI_PAT'' = None \<or> os_getenv w ''CLARIFAI_PAT'' = Some [] \<longrightarrow>
      app_script x inp w =
        (Stop, emit [UI (st_error (asc ''Please set CLARIFAI_PAT environment variable''))] w)) \<and>
   (os_getenv w ''CLARIFAI_PAT'' = Some p \<and> p \<noteq> [] \<and>
    (os_getenv w ''SERPER_API_KEY'' = None \<or> os_getenv w ''SERPER_API_KEY'' = Some []) \<longrightarrow>
      app_script x inp w =
        (Stop, emit [UI (st_error (asc ''Please set SERPER_API_KEY environment variable''))] w)) \<and>
   (os_getenv w ''CLARIFAI_PAT'' = Some p \<and> p \<noteq> [] \<and>
    os_getenv w ''SERPER_API_KEY'' = Some k \<and> k \<noteq> [] \<longrightarrow>
      fst (app_script x inp w) \<noteq> Stop \<and>
      (SerperDevTool_raises x (SerperDevTool None) = None \<longrightarrow>
         app_script x inp w =
           (Ret (),
            main x \<lparr>names = app_names, CLARIFAI_PAT = p, SERPER_API_KEY = k,
                    search_tool = SerperDevTool None\<rparr> inp
              (emit [Call (CallSerperDevTool (SerperDevTool None))] w))))"
  by (auto simp: app_script_def load_app_def falsy_iff Let_def os_getenv_def os_getenv_default_def
      split: option.splits)

theorem startup_credential_check_witness:
  "app_script demo_ext (quantum_click 0) (init Map.empty) =
     (Stop, emit [UI (st_error (asc ''Please set CLARIFAI_PAT environment variable''))]
              (init Map.empty)) \<and>
   app_script demo_ext (quantum_click 0) (init empty_pat_env) =
     (Stop, emit [UI (st_error (asc ''Please set CLARIFAI_PAT environment variable''))]
              (init empty_pat_env)) \<and>
   app_script demo_ext (quantum_click 0) (init pat_only_env) =
     (Stop, emit [UI (st_error (asc ''Please set SERPER_API_KEY environment variable''))]
              (init pat_only_env)) \<and>
   app_script demo_ext (quantum_click 0) (init demo_env) =
     (Ret (), main demo_ext demo_module (quantum_click 0)
                (emit [Call (CallSerperDevTool (SerperDevTool None))] (init demo_env)))"
proof -
  note a = startup_credential_check
    [of "init Map.empty" demo_ext "quantum_click 0" "asc ''pat-1''" "asc ''key-1''"]
  note b = startup_credential_check
    [of "init empty_pat_env" demo_ext "quantum_click 0" "asc ''pat-1''" "asc ''key-1''"]
  note c = startup_credential_check
    [of "init pat_only_env" demo_ext "quantum_click 0" "asc ''pat-1''" "asc ''key-1''"]
  note d = startup_credential_check
    [of "init demo_env" demo_ext "quantum_click 0" "asc ''pat-1''" "asc ''key-1''"]
  from a have 1: "app_script demo_ext (quantum_click 0) (init Map.empty) =
     (Stop, emit [UI (st_error (asc ''Please set CLARIFAI_PAT environment variable''))]
              (init Map.empty))"
    by (simp add: os_getenv_def init_def)
  from b have 2: "app_script demo_ext (quantum_click 0) (init empty_pat_env) =
     (Stop, emit [UI (st_error (asc ''Please set CLARIFAI_PAT environment variable''))]
              (init empty_pat_env))"
    by (simp add: os_getenv_def init_def empty_pat_env_def)
  from c have 3: "app_script demo_ext (quantum_click 0) (init pat_only_env) =
     (Stop, emit [UI (st_error (asc ''Please set SERPER_API_KEY environment variable''))]
              (init pat_only_env))"
    by (simp add: os_getenv_def init_def pat_only_env_def)
  from d have 4: "app_script demo_ext (quantum_click 0) (init demo_env) =
     (Ret (), main demo_ext demo_module (quantum_click 0)
                (emit [Call (CallSerperDevTool (SerperDevTool None))] (init demo_env)))"
    by (simp add: os_getenv_def init_def demo_env_def demo_ext_def demo_module_def)
  from 1 2 3 4 show ?thesis by blast
qed

section \<open>The texts of the agents\<close>

lemma Call_in_set_iff: "Call c \<in> set es \<longleftrightarrow> c \<in> set (calls_of es)"
  by (induction es rule: calls_of.induct) auto

lemma calls_of_display [simp]: "calls_of (post_display t r) = []"
  by (simp add: post_display_def)

lemma calls_of_report [simp]: "calls_of (post_report x e) = []"
  by (simp add: post_report_def)

lemma post_agent_texts:
  "role (post_researcher t st l) = asc ''Research Analyst''"
  "goal (post_researcher t st l) = asc ''Research comprehensive information about '' @ t"
  "backstory (post_researcher t st l) =
     asc ''You are an expert research analyst with deep knowledge across various domains.''"
  "role (post_writer t l) = asc ''Content Writer''"
  "goal (post_writer t l) = asc ''Write an engaging blog post about '' @ t"
  "backstory (post_writer t l) =
     asc ''You are a skilled content writer who creates engaging and informative blog posts.''"
  by (simp_all add: post_researcher_def post_writer_def)

lemma post_generate_agents:
  "post_generate x mn t p k w = (r, w') \<Longrightarrow>
     \<exists>es. trace w' = trace w @ es \<and>
       (\<forall>a. CallAgent a \<in> set (calls_of es) \<longrightarrow>
          a = post_researcher t (SerperDevTool (Some k)) (LLM (asc ''clarifai/'' @ mn) p None) \<or>
          a = post_writer t (LLM (asc ''clarifai/'' @ mn) p None))"
  unfolding post_generate_def
  by (auto simp: Let_def split: option.splits sum.splits)

lemma post_main_agents:
  assumes "Call (CallAgent a) \<in> set (news w (snd (post_main x inp w)))"
  shows "(\<exists>t l. a = post_researcher (f_topic inp) t l) \<or> (\<exists>l. a = post_writer (f_topic inp) l)"
proof -
  let ?p = "st_text_input (os_getenv_default w ''CLARIFAI_PAT'' []) (f_pat inp)"
  let ?k = "st_text_input (os_getenv_default w ''SERPER_API_KEY'' []) (f_key inp)"
  let ?w0 = "emit (post_setup_messages ?p ?k) w"
  let ?w2 = "environ_written ''SERPER_API_KEY'' ?k (environ_written ''CLARIFAI_PAT'' ?p ?w0)"
  obtain r w3 where g: "post_generate x (f_model inp) (f_topic inp) ?p ?k ?w2 = (r, w3)"
    by (cases "post_generate x (f_model inp) (f_topic inp) ?p ?k ?w2")
  from post_generate_agents [OF g] obtain es where
    es: "trace w3 = trace ?w2 @ es"
      "\<forall>a. CallAgent a \<in> set (calls_of es) \<longrightarrow>
          a = post_researcher (f_topic inp) (SerperDevTool (Some ?k))
                (LLM (asc ''clarifai/'' @ f_model inp) ?p None) \<or>
          a = post_writer (f_topic inp) (LLM (asc ''clarifai/'' @ f_model inp) ?p None)"
    by blast
  have "CallAgent a \<in> set (calls_of es)"
    using assms g es(1) post_main_cases [OF refl refl refl, of x inp w]
    by (cases r) (auto simp: Call_in_set_iff news_def)
  with es(2) show ?thesis by blast
qed

lemma create_agents_agents:
  "Call (CallAgent a) \<in> set (news w (snd (create_agents x m mn w))) \<Longrightarrow>
     (role a = asc ''Senior Research Analyst'' \<and>
      goal a = asc ''Uncover cutting-edge developments and facts on a given topic'' \<and>
      backstory a = researcher_backstory \<or>
      role a = asc ''Tech Content Strategist'' \<and>
      goal a = asc ''Craft compelling blog posts on technical topics'' \<and>
      backstory a = writer_backstory) \<and>
     llm_model (agent_llm a) = mn"
  unfolding create_agents_def get_clarifai_llm_def
  by (auto simp: Let_def news_def split: if_splits option.splits)

lemma create_agents_patched:
  "calls_of (news (init demo_env) (snd (create_agents demo_ext patched_module gemini (init demo_env)))) =
    [CallLLM (LLM gemini (asc ''pat-1'') (Some (asc ''https://api.clarifai.com/v2/ext/openai/v1''))),
     CallAgent (Agent (asc ''Senior Research Analyst'')
                   (asc ''Uncover cutting-edge developments and facts on a given topic'')
                   researcher_backstory [SerperDevTool None] True False
                   (LLM gemini (asc ''pat-1'') (Some (asc ''https://api.clarifai.com/v2/ext/openai/v1'')))),
     CallLLM (LLM gemini (asc ''pat-1'') (Some (asc ''https://api.clarifai.com/v2/ext/openai/v1''))),
     CallAgent (Agent (asc ''Tech Content Strategist'')
                        (asc ''Craft compelling blog posts on technical topics'')
                        writer_backstory [] True True
                   (LLM gemini (asc ''pat-1'') (Some (asc ''https://api.clarifai.com/v2/ext/openai/v1''))))]"
  by (simp add: create_agents_def get_clarifai_llm_def patched_module_def demo_module_def demo_ext_def
      Let_def init_def news_def emit_def)

lemma post_main_demo_calls:
  "CallAgent (post_researcher (asc ''My Topic!!'') (SerperDevTool (Some (asc ''key-1'')))
       (LLM (asc ''clarifai/'' @ llama) (asc ''pat-1'') None))
     \<in> set (calls_of (news (init Map.empty) (snd (post_main demo_ext demo_form (init Map.empty)))))"
  by (simp add: demo_run_defs)

text \<open>
  C8. Claim: the role, goal and backstory of the two agent descriptors are fixed
  templates parameterized only by the model, and do not vary with the topic. In the
  form app the goal of each agent interpolates the topic: the researcher's goal for
  the topic "A" differs from its goal for the topic "B".
\<close>

theorem agent_texts_vary_with_topic_counterexample:
  "\<not> (\<forall>topic topic' t l.
        goal (post_researcher topic t l) = goal (post_researcher topic' t l))"
proof
  assume "\<forall>topic topic' t l.
        goal (post_researcher topic t l) = goal (post_researcher topic' t l)"
  then have "goal (post_researcher (asc ''A'') (SerperDevTool None) (LLM [] [] None)) =
      goal (post_researcher (asc ''B'') (SerperDevTool None) (LLM [] [] None))"
    by blast
  then show False by (simp add: post_researcher_def)
qed

text \<open>
  C8, as amended. Every agent \<open>create_agents\<close> constructs, for any module, model and
  credentials, carries one of two fixed triples of role, goal and backstory, and the
  model identifier reaches only its LLM binding. Every agent the form app constructs
  in a run carries a fixed role and backstory and a goal that is a fixed prefix
  followed by the topic; the model and the two keys do not appear in these texts.
\<close>

theorem agent_texts_fixed_but_for_topic:
  "(Call (CallAgent a) \<in> set (news w (snd (create_agents x m model_name w))) \<longrightarrow>
      (role a = asc ''Senior Research Analyst'' \<and>
       goal a = asc ''Uncover cutting-edge developments and facts on a given topic'' \<and>
       backstory a = researcher_backstory \<or>
       role a = asc ''Tech Content Strategist'' \<and>
       goal a = asc ''Craft compelling blog posts on technical topics'' \<and>
       backstory a = writer_backstory) \<and>
      llm_model (agent_llm a) = model_name) \<and>
   (Call (CallAgent b) \<in> set (news v (snd (post_main x' inp v))) \<longrightarrow>
      role b = asc ''Research Analyst'' \<and>
      goal b = asc ''Research comprehensive information about '' @ f_topic inp \<and>
      backstory b =
        asc ''You are an expert research analyst with deep knowledge across various domains.'' \<or>
      role b = asc ''Content Writer'' \<and>
      goal b = asc ''Write an engaging blog post about '' @ f_topic inp \<and>
      backstory b =
        asc ''You are a skilled content writer who creates engaging and informative blog posts.'')"
proof (intro conjI impI)
  assume "Call (CallAgent a) \<in> set (news w (snd (create_agents x m model_name w)))"
  note c = create_agents_agents [OF this]
  from c show "role a = asc ''Senior Research Analyst'' \<and>
       goal a = asc ''Uncover cutting-edge developments and facts on a given topic'' \<and>
       backstory a = researcher_backstory \<or>
       role a = asc ''Tech Content Strategist'' \<and>
       goal a = asc ''Craft compelling blog posts on technical topics'' \<and>
       backstory a = writer_backstory" by blast
  from c show "llm_model (agent_llm a) = model_name" by blast
next
  assume "Call (CallAgent b) \<in> set (news v (snd (post_main x' inp v)))"
  from post_main_agents [OF this]
  show "role b = asc ''Research Analyst'' \<and>
      goal b = asc ''Research comprehensive information about '' @ f_topic inp \<and>
      backstory b =
        asc ''You are an expert research analyst with deep knowledge across various domains.'' \<or>
      role b = asc ''Content Writer'' \<and>
      goal b = asc ''Write an engaging blog post about '' @ f_topic inp \<and>
      backstory b =
        asc ''You are a skilled content writer who creates engaging and informative blog posts.''"
    by (auto simp: post_agent_texts)
qed

theorem agent_texts_fixed_but_for_topic_witness:
  "CallAgent (Agent (asc ''Senior Research Analyst'')
       (asc ''Uncover cutting-edge developments and facts on a given topic'')
       researcher_backstory [SerperDevTool None] True False
       (LLM gemini (asc ''pat-1'') (Some (asc ''https://api.clarifai.com/v2/ext/openai/v1''))))
     \<in> set (calls_of (news (init demo_env)
               (snd (create_agents demo_ext patched_module gemini (init demo_env))))) \<and>
   CallAgent (post_researcher (asc ''My Topic!!'') (SerperDevTool (Some (asc ''key-1'')))
       (LLM (asc ''clarifai/'' @ llama) (asc ''pat-1'') None))
     \<in> set (calls_of (news (init Map.empty)
               (snd (post_main demo_ext demo_form (init Map.empty))))) \<and>
   goal (post_researcher (asc ''My Topic!!'') (SerperDevTool (Some (asc ''key-1'')))
       (LLM (asc ''clarifai/'' @ llama) (asc ''pat-1'') None)) =
     asc ''Research comprehensive information about '' @ asc ''My Topic!!''"
proof -
  let ?a = "Agent (asc ''Senior Research Analyst'')
       (asc ''Uncover cutting-edge developments and facts on a given topic'')
       researcher_backstory [SerperDevTool None] True False
       (LLM gemini (asc ''pat-1'') (Some (asc ''https://api.clarifai.com/v2/ext/openai/v1'')))"
  let ?b = "post_researcher (asc ''My Topic!!'') (SerperDevTool (Some (asc ''key-1'')))
       (LLM (asc ''clarifai/'' @ llama) (asc ''pat-1'') None)"
  have 1: "CallAgent ?a \<in> set (calls_of (news (init demo_env)
               (snd (create_agents demo_ext patched_module gemini (init demo_env)))))"
    by (simp add: create_agents_patched)
  have 2: "CallAgent ?b \<in> set (calls_of (news (init Map.empty)
               (snd (post_main demo_ext demo_form (init Map.empty)))))"
    by (rule post_main_demo_calls)
  from 1 2 agent_texts_fixed_but_for_topic
    [of ?a "init demo_env" demo_ext patched_module gemini ?b "init Map.empty" demo_ext demo_form]
  have "goal ?b = asc ''Research comprehensive information about '' @ f_topic demo_form"
    by (simp add: Call_in_set_iff post_researcher_def)
  then have "goal ?b = asc ''Research comprehensive information about '' @ asc ''My Topic!!''"
    by (simp add: demo_form_def)
  with 1 2 show ?thesis by blast
qed

end
